theory Spec2Isabelle
  imports Complex_Main "HOL-Library.Sublist"
begin

section \<open>Values, errors and the host scene\<close>

text \<open>
  Python values as the collector handles them. Numbers are only read, compared for
  truth and passed on, never computed with, so a float is carried as a real.
\<close>

datatype pyval =
    PyNone
  | PyBool bool
  | PyInt int
  | PyFloat real
  | PyStr string
  | PyList "pyval list"
  | PyDict "(string \<times> pyval) list"

text \<open>
  Exceptions. \<open>ValueError\<close> and \<open>AttributeError\<close> are the ones raised in
  \<^verbatim>\<open>query_by_renderlayer\<close> and by \<^verbatim>\<open>getattr\<close>; \<open>CoercionError\<close> stands
  for whatever exception the callable bound to an attribute type name raises on a value.
\<close>

datatype error =
    ValueError string
  | AttributeError string
  | TypeError string
  | KeyError string
  | AssertionError string
  | CoercionError string

text \<open>Truth value of a Python object (\<^verbatim>\<open>if x:\<close>).\<close>

fun truthy :: "pyval \<Rightarrow> bool" where
  "truthy PyNone = False"
| "truthy (PyBool b) = b"
| "truthy (PyInt n) = (n \<noteq> 0)"
| "truthy (PyFloat r) = (r \<noteq> 0)"
| "truthy (PyStr s) = (s \<noteq> [])"
| "truthy (PyList xs) = (xs \<noteq> [])"
| "truthy (PyDict kvs) = (kvs \<noteq> [])"

text \<open>
  A DAG node of the scene: its name, its node type, the \<^verbatim>\<open>intermediateObject\<close>
  flag and its children.
\<close>

datatype dagnode =
  DagNode (node_name: string) (node_type: string) (intermediate: bool) (node_children: "dagnode list")

text \<open>
  The host: what the \<^verbatim>\<open>maya.cmds\<close> queries used by the code answer, and the Python
  namespace \<^verbatim>\<open>eval\<close> looks a type name up in. Each field is named after the command
  or attribute it answers for.
  \<^item> \<open>ls_renderLayer\<close>: \<^verbatim>\<open>cmds.ls(type="renderLayer")\<close>;
  \<^item> \<open>objExists\<close>: \<^verbatim>\<open>cmds.objExists(plug)\<close>;
  \<^item> \<open>currentRenderLayer\<close>: the active layer, the global that
    \<^verbatim>\<open>cmds.editRenderLayerGlobals\<close> reads and writes;
  \<^item> \<open>getAttr\<close>: \<^verbatim>\<open>cmds.getAttr(plug, asString=True)\<close>;
  \<^item> \<open>getAttr_type\<close>: \<^verbatim>\<open>cmds.getAttr(plug, type=True)\<close>;
  \<^item> \<open>listConnections\<close>: \<^verbatim>\<open>cmds.listConnections(plug, type="renderLayer",
    source=False, plugs=True)\<close>, \<open>None\<close> when there is no connection;
  \<^item> \<open>py_namespace\<close>: the object a name is bound to where \<^verbatim>\<open>eval\<close> runs, as the
    function calling it computes (\<open>None\<close> from that function: the call raises); an
    unbound name is \<open>None\<close> (\<^verbatim>\<open>NameError\<close>). Maya's attribute type names are
    identifiers, on which \<^verbatim>\<open>eval\<close> is this lookup;
  \<^item> \<open>renderLayerManager_renderLayerId\<close>:
    \<^verbatim>\<open>cmds.listConnections("renderLayerManager.renderLayerId")\<close>;
  \<^item> \<open>mayaHasRenderSetup\<close>: \<^verbatim>\<open>cmds.mayaHasRenderSetup()\<close>;
  \<^item> \<open>renderable\<close>, \<open>displayOrder\<close>: \<^verbatim>\<open>cmds.getAttr\<close> of a layer's boolean
    \<^verbatim>\<open>renderable\<close> and integer \<^verbatim>\<open>displayOrder\<close> attributes;
  \<^item> \<open>isNodeReferenced\<close>: \<^verbatim>\<open>cmds.referenceQuery(node, isNodeReferenced=True)\<close>;
  \<^item> \<open>editRenderLayerMembers\<close>: \<^verbatim>\<open>cmds.editRenderLayerMembers(layer, query=True)\<close>;
  \<^item> \<open>dag\<close>: the root nodes of the scene hierarchy, which \<^verbatim>\<open>cmds.listRelatives\<close>
    and \<^verbatim>\<open>cmds.ls(nodes, type=...)\<close> read. A node goes by one name here: the model
    does not tell short names from full paths;
  \<^item> \<open>is_locked\<close>: \<^verbatim>\<open>avalon.maya.is_locked()\<close>;
  \<^item> \<open>os_path_join\<close>, \<open>os_path_splitext\<close>: the platform's \<^verbatim>\<open>os.path\<close> functions;
  \<^item> \<open>compose_render_filename\<close>, \<open>get_render_filename_prefix\<close>,
    \<open>get_vray_element_names\<close>, \<open>get_arnold_aov_names\<close>: the helpers of
    \<^verbatim>\<open>reveries.maya.utils\<close>, \<^verbatim>\<open>reveries.maya.vray.utils\<close> and
    \<^verbatim>\<open>reveries.maya.arnold.utils\<close> the collector calls, taken as they answer;
  \<^item> \<open>py_list_of_set\<close>: \<^verbatim>\<open>list(a_set)\<close>, the order in which Python lists a set that
    holds the given strings, each once.
\<close>

record maya =
  ls_renderLayer :: "string list"
  objExists :: "string \<Rightarrow> bool"
  currentRenderLayer :: string
  getAttr :: "string \<Rightarrow> pyval"
  getAttr_type :: "string \<Rightarrow> string"
  listConnections :: "string \<Rightarrow> string list option"
  py_namespace :: "string \<Rightarrow> (pyval \<Rightarrow> pyval option) option"
  renderLayerManager_renderLayerId :: "string list option"
  mayaHasRenderSetup :: bool
  renderable :: "string \<Rightarrow> bool"
  displayOrder :: "string \<Rightarrow> int"
  isNodeReferenced :: "string \<Rightarrow> bool"
  editRenderLayerMembers :: "string \<Rightarrow> string list option"
  dag :: "dagnode list"
  is_locked :: bool
  os_path_join :: "string \<Rightarrow> string \<Rightarrow> string"
  os_path_splitext :: "string \<Rightarrow> string \<times> string"
  compose_render_filename :: "string \<Rightarrow> string \<Rightarrow> string"
  get_render_filename_prefix :: "string \<Rightarrow> pyval"
  get_vray_element_names :: "string \<Rightarrow> string list"
  get_arnold_aov_names :: "string \<Rightarrow> string list"
  py_list_of_set :: "string list \<Rightarrow> string list"

section \<open>The attribute override resolver\<close>

text \<open>
  The host commands \<^verbatim>\<open>query_by_renderlayer\<close> issues, as state transformers on the
  host: each returns its answer and the host it leaves behind. All of them are queries.
\<close>

type_synonym 'a cmd = "maya \<Rightarrow> 'a \<times> maya"

definition cmds_ls_renderLayer :: "string \<Rightarrow> string list cmd" where
  "cmds_ls_renderLayer layer s = (filter (\<lambda>l. l = layer) (ls_renderLayer s), s)"

definition cmds_objExists :: "string \<Rightarrow> bool cmd" where
  "cmds_objExists plug s = (objExists s plug, s)"

definition cmds_editRenderLayerGlobals_query :: "string cmd" where
  "cmds_editRenderLayerGlobals_query s = (currentRenderLayer s, s)"

definition cmds_getAttr :: "string \<Rightarrow> pyval cmd" where
  "cmds_getAttr plug s = (getAttr s plug, s)"

definition cmds_getAttr_type :: "string \<Rightarrow> string cmd" where
  "cmds_getAttr_type plug s = (getAttr_type s plug, s)"

definition cmds_listConnections :: "string \<Rightarrow> string list option cmd" where
  "cmds_listConnections plug s = (listConnections s plug, s)"

text \<open>\<^verbatim>\<open>conn.rsplit(".", 1)[0]\<close>: the part before the last dot, all of it without one.\<close>

definition rsplit_dot_head :: "string \<Rightarrow> string" where
  "rsplit_dot_head conn =
     (if CHR ''.'' \<in> set conn
      then rev (tl (dropWhile (\<lambda>c. c \<noteq> CHR ''.'') (rev conn)))
      else conn)"

text \<open>
  \<^verbatim>\<open>type_\<close>: the object the attribute's type name evaluates to, the identity when
  the name is unbound (\<^verbatim>\<open>except NameError\<close>).
\<close>

definition type_of :: "maya \<Rightarrow> string \<Rightarrow> (pyval \<Rightarrow> pyval option)" where
  "type_of s type_name = (case py_namespace s type_name of None \<Rightarrow> Some | Some f \<Rightarrow> f)"

text \<open>\<^verbatim>\<open>get_value(conn)\<close>: the adjustment's stored value, coerced.\<close>

definition get_value :: "string \<Rightarrow> (pyval \<Rightarrow> pyval option) \<Rightarrow> string \<Rightarrow> (error + pyval) cmd" where
  "get_value type_name ty conn s =
     (let (v, s1) = cmds_getAttr (rsplit_dot_head conn @ ''.value'') s
      in case ty v of
           None \<Rightarrow> (Inl (CoercionError type_name), s1)
         | Some w \<Rightarrow> (Inr w, s1))"

text \<open>
  The loop over the connections. It ends either by the \<^verbatim>\<open>return\<close> inside it or by
  running out of connections with the origin value it has recorded.
\<close>

datatype scan = Returned pyval | Exhausted pyval

fun scan_connections ::
  "string \<Rightarrow> (pyval \<Rightarrow> pyval option) \<Rightarrow> string \<Rightarrow> string list \<Rightarrow> pyval \<Rightarrow> (error + scan) cmd"
where
  "scan_connections type_name ty layer [] origin_value s = (Inr (Exhausted origin_value), s)"
| "scan_connections type_name ty layer (conn # conns) origin_value s =
     (if prefix ''defaultRenderLayer.adjustments'' conn then
        (case get_value type_name ty conn s of
           (Inl e, s1) \<Rightarrow> (Inl e, s1)
         | (Inr v, s1) \<Rightarrow> scan_connections type_name ty layer conns v s1)
      else if \<not> prefix (layer @ ''.adjustments'') conn then
        scan_connections type_name ty layer conns origin_value s
      else
        (case get_value type_name ty conn s of
           (Inl e, s1) \<Rightarrow> (Inl e, s1)
         | (Inr v, s1) \<Rightarrow> (Inr (Returned v), s1)))"

definition query_by_renderlayer :: "string \<Rightarrow> string \<Rightarrow> string \<Rightarrow> (error + pyval) cmd" where
  "query_by_renderlayer node attr layer s =
     (let (found, s1) = cmds_ls_renderLayer layer s in
      if found = [] then (Inl (ValueError (''RenderLayer not exists: '' @ layer)), s1)
      else
        let node_attr = node @ ''.'' @ attr;
            (ex, s2) = cmds_objExists node_attr s1 in
        if \<not> ex then (Inl (AttributeError (''Attribute not exists: '' @ node_attr)), s2)
        else
          let (current, s3) = cmds_editRenderLayerGlobals_query s2 in
          if layer = current then
            (let (v, s4) = cmds_getAttr node_attr s3 in (Inr v, s4))
          else
            let (type_name, s4) = cmds_getAttr_type node_attr s3;
                ty = type_of s4 type_name;
                (conns, s5) = cmds_listConnections node_attr s4 in
            case scan_connections type_name ty layer
                   (case conns of None \<Rightarrow> [] | Some cs \<Rightarrow> cs) PyNone s5 of
              (Inl e, s6) \<Rightarrow> (Inl e, s6)
            | (Inr (Returned v), s6) \<Rightarrow> (Inr v, s6)
            | (Inr (Exhausted origin_value), s6) \<Rightarrow>
                if origin_value \<noteq> PyNone then (Inr origin_value, s6)
                else (let (v, s7) = cmds_getAttr node_attr s6 in (Inr v, s7)))"

text \<open>The value (or error) of a resolution, for the callers that only read it.\<close>

definition resolve :: "maya \<Rightarrow> string \<Rightarrow> string \<Rightarrow> string \<Rightarrow> error + pyval" where
  "resolve s node attr layer = fst (query_by_renderlayer node attr layer s)"

section \<open>Scene hierarchy queries\<close>

text \<open>Sequencing of fallible steps: the first error ends the computation.\<close>

fun bind_err :: "error + 'a \<Rightarrow> ('a \<Rightarrow> error + 'b) \<Rightarrow> error + 'b" where
  "bind_err (Inl e) f = Inl e"
| "bind_err (Inr x) f = f x"

text \<open>\<^verbatim>\<open>d[key]\<close> on a dictionary.\<close>

definition lookup :: "(string \<rightharpoonup> pyval) \<Rightarrow> string \<Rightarrow> error + pyval" where
  "lookup d k = (case d k of None \<Rightarrow> Inl (KeyError k) | Some v \<Rightarrow> Inr v)"

fun descendants :: "dagnode \<Rightarrow> dagnode list" where
  "descendants (DagNode n t i cs) = concat (map (\<lambda>c. c # descendants c) cs)"

text \<open>The parent's name with each node below a root.\<close>

fun parent_edges :: "dagnode \<Rightarrow> (string \<times> dagnode) list" where
  "parent_edges (DagNode n t i cs) = concat (map (\<lambda>c. (n, c) # parent_edges c) cs)"

definition dag_nodes :: "maya \<Rightarrow> dagnode list" where
  "dag_nodes s = concat (map (\<lambda>r. r # descendants r) (dag s))"

definition dag_edges :: "maya \<Rightarrow> (string \<times> dagnode) list" where
  "dag_edges s = concat (map parent_edges (dag s))"

text \<open>
  \<^verbatim>\<open>cmds.listRelatives(nodes, allDescendents=True)\<close>: everything below the given
  nodes, \<open>None\<close> when there is nothing. The hierarchy commands are taken on the node
  lists the code passes them; Maya's recourse to the current selection when it is given
  no node is left out.
\<close>

definition listRelatives_allDescendents :: "maya \<Rightarrow> string list \<Rightarrow> string list option" where
  "listRelatives_allDescendents s nodes =
     (let ds = concat (map (\<lambda>n. concat (map (\<lambda>d. map node_name (descendants d))
                                   (filter (\<lambda>d. node_name d = n) (dag_nodes s)))) nodes)
      in if ds = [] then None else Some ds)"

text \<open>\<^verbatim>\<open>cmds.listRelatives(nodes, parent=True, fullPath=True)\<close>.\<close>

definition listRelatives_parent :: "maya \<Rightarrow> string list \<Rightarrow> string list option" where
  "listRelatives_parent s nodes =
     (let ps = concat (map (\<lambda>n. map fst (filter (\<lambda>(p, c). node_name c = n) (dag_edges s))) nodes)
      in if ps = [] then None else Some ps)"

text \<open>\<^verbatim>\<open>cmds.ls(nodes, long=True)\<close>: those of the given names that name a node.\<close>

definition ls_long :: "maya \<Rightarrow> string list \<Rightarrow> string list" where
  "ls_long s nodes = filter (\<lambda>n. \<exists>d \<in> set (dag_nodes s). node_name d = n) nodes"

text \<open>\<^verbatim>\<open>cmds.ls(nodes, type=ty, long=True)\<close>.\<close>

definition ls_type :: "maya \<Rightarrow> string list \<Rightarrow> string \<Rightarrow> string list" where
  "ls_type s nodes ty =
     filter (\<lambda>n. \<exists>d \<in> set (dag_nodes s). node_name d = n \<and> node_type d = ty) nodes"

text \<open>\<^verbatim>\<open>cmds.ls(nodes, type="mesh", noIntermediate=True, long=True)\<close>.\<close>

definition ls_mesh_noIntermediate :: "maya \<Rightarrow> string list \<Rightarrow> string list" where
  "ls_mesh_noIntermediate s nodes =
     filter (\<lambda>n. \<exists>d \<in> set (dag_nodes s).
                   node_name d = n \<and> node_type d = ''mesh'' \<and> \<not> intermediate d) nodes"

text \<open>\<^verbatim>\<open>cmds.ls(type="camera", long=True)\<close>: every camera of the scene.\<close>

definition ls_all_cameras :: "maya \<Rightarrow> string list" where
  "ls_all_cameras s = map node_name (filter (\<lambda>d. node_type d = ''camera'') (dag_nodes s))"

text \<open>
  \<^verbatim>\<open>lib.ls_renderable_cameras(layer)\<close>: the cameras whose \<^verbatim>\<open>renderable\<close>
  attribute resolves to a true value for the layer.
\<close>

fun filter_renderable :: "maya \<Rightarrow> string \<Rightarrow> string list \<Rightarrow> error + string list" where
  "filter_renderable s layer [] = Inr []"
| "filter_renderable s layer (cam # cams) =
     bind_err (resolve s cam ''renderable'' layer) (\<lambda>v.
     bind_err (filter_renderable s layer cams) (\<lambda>rest.
     Inr (if truthy v then cam # rest else rest)))"

definition ls_renderable_cameras :: "maya \<Rightarrow> string \<Rightarrow> error + string list" where
  "ls_renderable_cameras s layer =
     filter_renderable s (if layer = [] then currentRenderLayer s else layer) (ls_all_cameras s)"

section \<open>Publish instances and the output-path composer\<close>

text \<open>
  A pyblish instance is a list of member nodes with a name and a \<^verbatim>\<open>data\<close>
  dictionary; a context is a list of instances with a \<^verbatim>\<open>data\<close> dictionary.
\<close>

record publish_instance =
  inst_name :: string
  inst_members :: "string list"
  inst_data :: "string \<rightharpoonup> pyval"

record publish_context =
  ctx_data :: "string \<rightharpoonup> pyval"
  ctx_instances :: "publish_instance list"

text \<open>\<^verbatim>\<open>context.create_instance(name)\<close>: pyblish's new, empty instance.\<close>

definition create_instance :: "string \<Rightarrow> publish_instance" where
  "create_instance name =
     \<lparr>inst_name = name, inst_members = [],
      inst_data = [''family'' \<mapsto> PyStr ''default'', ''name'' \<mapsto> PyStr name]\<rparr>"

definition set_data :: "string \<Rightarrow> pyval \<Rightarrow> publish_instance \<Rightarrow> publish_instance" where
  "set_data k v inst = inst\<lparr>inst_data := (inst_data inst)(k \<mapsto> v)\<rparr>"

definition publish_on_lock :: "maya \<Rightarrow> publish_instance \<Rightarrow> publish_instance" where
  "publish_on_lock s inst =
     (if \<not> is_locked s
      then set_data ''publish'' (PyBool False) (set_data ''optional'' (PyBool False) inst)
      else inst)"

text \<open>\<^verbatim>\<open>len(x)\<close>.\<close>

fun py_len :: "pyval \<Rightarrow> error + nat" where
  "py_len (PyStr x) = Inr (length x)"
| "py_len (PyList xs) = Inr (length xs)"
| "py_len (PyDict kvs) = Inr (length kvs)"
| "py_len v = Inl (TypeError ''object has no len()'')"

definition set_extraction_type :: "publish_instance \<Rightarrow> error + publish_instance" where
  "set_extraction_type inst =
     bind_err (lookup (inst_data inst) ''outputPaths'') (\<lambda>paths.
     bind_err (py_len paths) (\<lambda>n.
     Inr (if n > 1 then set_data ''extractType'' (PyStr ''imageSequenceSet'') inst
          else set_data ''extractType'' (PyStr ''imageSequence'') inst)))"

text \<open>
  \<^verbatim>\<open>paths[aov] = value\<close> on an \<^verbatim>\<open>OrderedDict\<close>: a new key goes last, a key
  already there keeps its place and takes the value.
\<close>

definition od_set :: "string \<Rightarrow> 'v \<Rightarrow> (string \<times> 'v) list \<Rightarrow> (string \<times> 'v) list" where
  "od_set k v kvs =
     (if k \<in> fst ` set kvs then map (\<lambda>(k', v'). if k' = k then (k', v) else (k', v')) kvs
      else kvs @ [(k, v)])"

text \<open>\<^verbatim>\<open>path.replace(backslash, "/")\<close>; the backslash is character \<open>0x5C\<close>.\<close>

definition replace_backslash :: "string \<Rightarrow> string" where
  "replace_backslash path = map (\<lambda>c. if c = CHR 0x5C then CHR ''/'' else c) path"

text \<open>The loop of \<^verbatim>\<open>collect_output_paths\<close> over the channel names.\<close>

fun compose_paths ::
  "maya \<Rightarrow> string \<Rightarrow> string \<Rightarrow> string list \<Rightarrow> (string \<times> pyval) list \<Rightarrow> (string \<times> pyval) list"
where
  "compose_paths s layer output_dir [] paths = paths"
| "compose_paths s layer output_dir (aov # aov_names) paths =
     (let output_prefix = compose_render_filename s layer aov;
          output_path = output_dir @ ''/'' @ output_prefix
      in compose_paths s layer output_dir aov_names
           (od_set aov (PyStr (replace_backslash output_path)) paths))"

text \<open>The channel names the renderer reports: the \<^verbatim>\<open>if\<close> chain on the renderer.\<close>

definition renderer_aov_names :: "maya \<Rightarrow> pyval \<Rightarrow> string \<Rightarrow> string list" where
  "renderer_aov_names s renderer layer =
     (if renderer = PyStr ''vray'' then get_vray_element_names s layer
      else if renderer = PyStr ''arnold'' then get_arnold_aov_names s layer
      else [])"

text \<open>
  \<^verbatim>\<open>collect_output_paths\<close>. The helpers take the layer's name: a layer that is not a
  string fails the first of them that is called, which for the renderers with a channel
  listing is before the output directory is read and for the others after.
\<close>

definition collect_output_paths :: "maya \<Rightarrow> (string \<rightharpoonup> pyval) \<Rightarrow> publish_instance \<Rightarrow> error + publish_instance" where
  "collect_output_paths s context_data inst =
     bind_err (lookup (inst_data inst) ''renderer'') (\<lambda>renderer.
     bind_err (lookup (inst_data inst) ''renderlayer'') (\<lambda>layer_v.
     if (renderer = PyStr ''vray'' \<or> renderer = PyStr ''arnold'') \<and>
        (case layer_v of PyStr layer \<Rightarrow> False | _ \<Rightarrow> True)
     then Inl (TypeError ''layer is not a string'')
     else
       bind_err (lookup context_data ''outputDir'') (\<lambda>output_dir_v.
       (case layer_v of
          PyStr layer \<Rightarrow>
            (case output_dir_v of
               PyStr output_dir \<Rightarrow>
                 Inr (set_data ''outputPaths''
                        (PyDict (compose_paths s layer output_dir
                                   (renderer_aov_names s renderer layer @ [[]]) [])) inst)
             | _ \<Rightarrow> Inl (TypeError ''output_dir is not a string''))
        | _ \<Rightarrow> Inl (TypeError ''layer is not a string'')))))"

section \<open>The render-type variants\<close>

text \<open>
  \<^verbatim>\<open>hierarchy = instance[:]; hierarchy += cmds.listRelatives(instance,
  allDescendents=True)\<close>: extending a list by \<^verbatim>\<open>None\<close> raises.
\<close>

definition instance_hierarchy :: "maya \<Rightarrow> publish_instance \<Rightarrow> error + string list" where
  "instance_hierarchy s inst =
     (case listRelatives_allDescendents s (inst_members inst) of
        None \<Rightarrow> Inl (TypeError ''NoneType object is not iterable'')
      | Some ds \<Rightarrow> Inr (inst_members inst @ ds))"

text \<open>\<^verbatim>\<open>x += y\<close> for a string \<open>y\<close>: a list on the left is extended by its characters.\<close>

fun py_iadd_str :: "pyval \<Rightarrow> string \<Rightarrow> error + pyval" where
  "py_iadd_str (PyStr x) y = Inr (PyStr (x @ y))"
| "py_iadd_str (PyList xs) y = Inr (PyList (xs @ map (\<lambda>c. PyStr [c]) y))"
| "py_iadd_str v y = Inl (TypeError ''unsupported operand for +='')"

text \<open>\<^verbatim>\<open>x + v\<close> for a string \<open>x\<close>.\<close>

fun py_str_add :: "string \<Rightarrow> pyval \<Rightarrow> error + pyval" where
  "py_str_add x (PyStr y) = Inr (PyStr (x @ y))"
| "py_str_add x v = Inl (TypeError ''cannot concatenate str and non-str'')"

text \<open>
  A step that may raise, taken while a state is being built: the exception leaves with
  the state as it stands at that point, as the object the code has mutated so far stays
  behind.
\<close>

fun attempt :: "error + 'a \<Rightarrow> 's \<Rightarrow> ('a \<Rightarrow> (error \<times> 's) + 'b) \<Rightarrow> (error \<times> 's) + 'b" where
  "attempt (Inl e) st f = Inl (e, st)"
| "attempt (Inr x) st f = f x"

definition process_playblast ::
  "maya \<Rightarrow> (string \<rightharpoonup> pyval) \<Rightarrow> publish_instance \<Rightarrow> string \<Rightarrow>
   (error \<times> publish_instance) + publish_instance"
where
  "process_playblast s context_data inst layer =
     (let inst1 = set_data ''families'' (PyList [PyStr ''reveries.imgseq.playblast'']) inst;
          inst2 = set_data ''category'' (PyStr ''Playblast'') inst1;
          inst3 = publish_on_lock s inst2
      in
      attempt (lookup (inst_data inst3) ''deadlineEnable'') inst3 (\<lambda>enable.
      let inst4 = (if truthy enable
                   then set_data ''publishContractor'' (PyStr ''deadline.maya.script'')
                          (set_data ''useContractor'' (PyBool True) inst3)
                   else inst3)
      in
      attempt (instance_hierarchy s inst4) inst4 (\<lambda>hierarchy.
      Inr (set_data ''renderCam'' (PyList (map PyStr (ls_type s hierarchy ''camera''))) inst4))))"

text \<open>
  In the two rendering variants the cameras are the list of a set intersection, in the
  order Python gives that set.
\<close>

definition process_turntable ::
  "maya \<Rightarrow> (string \<rightharpoonup> pyval) \<Rightarrow> publish_instance \<Rightarrow> string \<Rightarrow>
   (error \<times> publish_instance) + publish_instance"
where
  "process_turntable s context_data inst layer =
     attempt (lookup (inst_data inst) ''subset'') inst (\<lambda>subset.
     attempt (py_iadd_str subset (''.'' @ inst_name inst)) inst (\<lambda>subset1.
     let inst1 = set_data ''subset'' subset1 inst;
         inst2 = set_data ''families'' (PyList [PyStr ''reveries.imgseq.turntable'']) inst1
     in
     attempt (lookup (inst_data inst2) ''renderer'') inst2 (\<lambda>renderer.
     attempt (py_str_add ''Turntable: '' renderer) inst2 (\<lambda>category.
     let inst3 = set_data ''category'' category inst2;
         inst4 = publish_on_lock s inst3
     in
     attempt (lookup (inst_data inst4) ''deadlineEnable'') inst4 (\<lambda>enable.
     let inst5 = (if truthy enable
                  then set_data ''publishContractor'' (PyStr ''deadline.maya.render'')
                         (set_data ''useContractor'' (PyBool True) inst4)
                  else inst4)
     in
     attempt (instance_hierarchy s inst5) inst5 (\<lambda>hierarchy.
     attempt (ls_renderable_cameras s layer) inst5 (\<lambda>renderable_cam.
     let instance_cam = ls_type s hierarchy ''camera'';
         render_cam = py_list_of_set s
                        (filter (\<lambda>c. c \<in> set renderable_cam) (remdups instance_cam));
         inst6 = set_data ''renderCam'' (PyList (map PyStr render_cam)) inst5
     in
     attempt (collect_output_paths s context_data inst6) inst6 (\<lambda>inst7.
     attempt (set_extraction_type inst7) inst7 (\<lambda>inst8.
     Inr inst8)))))))))"

definition process_batchrender ::
  "maya \<Rightarrow> (string \<rightharpoonup> pyval) \<Rightarrow> publish_instance \<Rightarrow> string \<Rightarrow>
   (error \<times> publish_instance) + publish_instance"
where
  "process_batchrender s context_data inst layer =
     attempt (lookup (inst_data inst) ''subset'') inst (\<lambda>subset.
     attempt (py_iadd_str subset (''.'' @ inst_name inst)) inst (\<lambda>subset1.
     let inst1 = set_data ''subset'' subset1 inst;
         inst2 = set_data ''families'' (PyList [PyStr ''reveries.imgseq.batchrender'']) inst1
     in
     attempt (lookup (inst_data inst2) ''renderer'') inst2 (\<lambda>renderer.
     attempt (py_str_add ''Render: '' renderer) inst2 (\<lambda>category.
     let inst3 = set_data ''category'' category inst2
     in
     attempt (lookup (inst_data inst3) ''deadlineEnable'') inst3 (\<lambda>enable.
     let inst4 = (if truthy enable
                  then set_data ''publishContractor'' (PyStr ''deadline.maya.render'')
                         (set_data ''useContractor'' (PyBool True) inst3)
                  else inst3)
     in
     attempt (instance_hierarchy s inst4) inst4 (\<lambda>hierarchy.
     attempt (ls_renderable_cameras s layer) inst4 (\<lambda>renderable_cam.
     let instance_cam = ls_type s hierarchy ''camera'';
         render_cam = py_list_of_set s
                        (filter (\<lambda>c. c \<in> set renderable_cam) (remdups instance_cam));
         inst5 = set_data ''renderCam'' (PyList (map PyStr render_cam)) inst4
     in
     attempt (collect_output_paths s context_data inst5) inst5 (\<lambda>inst6.
     attempt (set_extraction_type inst6) inst6 (\<lambda>inst7.
     Inr inst7)))))))))"

text \<open>
  \<^verbatim>\<open>getattr(self, "process_" + instance.data["renderType"])\<close>: the plug-in has
  these three methods of that prefix and no other.
\<close>

definition variate ::
  "pyval \<Rightarrow> error + (maya \<Rightarrow> (string \<rightharpoonup> pyval) \<Rightarrow> publish_instance \<Rightarrow> string \<Rightarrow>
                    (error \<times> publish_instance) + publish_instance)"
where
  "variate renderType =
     (case renderType of
        PyStr t \<Rightarrow>
          if t = ''playblast'' then Inr process_playblast
          else if t = ''turntable'' then Inr process_turntable
          else if t = ''batchrender'' then Inr process_batchrender
          else Inl (AttributeError (''process_'' @ t))
      | _ \<Rightarrow> Inl (TypeError ''cannot concatenate str and non-str''))"

section \<open>The render-layer instance synthesizer\<close>

definition get_render_attr :: "maya \<Rightarrow> string \<Rightarrow> string \<Rightarrow> error + pyval" where
  "get_render_attr s attr layer = resolve s ''defaultRenderGlobals'' attr layer"

text \<open>
  \<^verbatim>\<open>lib.query_by_renderlayer(self.instance_node, k, layer)\<close>: the instance node is
  whatever the placeholder's \<^verbatim>\<open>objectName\<close> held; joining a non-string to the
  attribute name raises, after the check of the layer.
\<close>

definition query_instance_node :: "maya \<Rightarrow> pyval \<Rightarrow> string \<Rightarrow> string \<Rightarrow> error + pyval" where
  "query_instance_node s instance_node attr layer =
     (case instance_node of
        PyStr node \<Rightarrow> resolve s node attr layer
      | _ \<Rightarrow> if layer \<in> set (ls_renderLayer s)
             then Inl (TypeError ''unsupported operand for +'')
             else Inl (ValueError (''RenderLayer not exists: '' @ layer)))"

definition pipeline_attrs :: "string list" where
  "pipeline_attrs =
     [''asset'', ''subset'', ''renderType'', ''deadlineEnable'', ''deadlinePool'',
      ''deadlineGroup'', ''deadlinePriority'']"

fun collect_pipeline_attr ::
  "maya \<Rightarrow> pyval \<Rightarrow> string \<Rightarrow> string list \<Rightarrow> (string \<rightharpoonup> pyval) \<Rightarrow> error + (string \<rightharpoonup> pyval)"
where
  "collect_pipeline_attr s instance_node layer [] acc = Inr acc"
| "collect_pipeline_attr s instance_node layer (k # ks) acc =
     bind_err (query_instance_node s instance_node k layer) (\<lambda>v.
     collect_pipeline_attr s instance_node layer ks (acc(k \<mapsto> v)))"

definition get_pipeline_attr :: "maya \<Rightarrow> pyval \<Rightarrow> string \<Rightarrow> error + (string \<rightharpoonup> pyval)" where
  "get_pipeline_attr s instance_node layer =
     collect_pipeline_attr s instance_node layer pipeline_attrs Map.empty"

text \<open>
  The body of the loop over the render layers, for a layer that is linked to the render
  layer manager: from \<^verbatim>\<open>layername\<close> to \<^verbatim>\<open>instance += transforms\<close>. The helper
  \<^verbatim>\<open>compose_render_filename(layer)\<close>, called without a channel, is taken at the
  primary channel. An exception comes with the instance the iteration has created,
  as far as it is built, or with none when it is raised before
  \<^verbatim>\<open>context.create_instance\<close>.
\<close>

definition process_layer ::
  "maya \<Rightarrow> (string \<rightharpoonup> pyval) \<Rightarrow> pyval \<Rightarrow> string list \<Rightarrow> string \<Rightarrow>
   (error \<times> publish_instance option) + publish_instance"
where
  "process_layer s context_data instance_node dummy_members layer =
     (let layername = (if suffix ''defaultRenderLayer'' layer then ''masterLayer'' else layer)
      in
      attempt (get_render_attr s ''currentRenderer'' layer) None (\<lambda>renderer.
      let name_preview = compose_render_filename s layer [];
          ext = snd (os_path_splitext s name_preview)
      in
      attempt (get_render_attr s ''startFrame'' layer) None (\<lambda>startFrame.
      attempt (get_render_attr s ''endFrame'' layer) None (\<lambda>endFrame.
      attempt (get_render_attr s ''byFrameStep'' layer) None (\<lambda>byFrameStep.
      let data = [''renderlayer'' \<mapsto> PyStr layer,
                  ''startFrame'' \<mapsto> startFrame,
                  ''endFrame'' \<mapsto> endFrame,
                  ''byFrameStep'' \<mapsto> byFrameStep,
                  ''renderer'' \<mapsto> renderer,
                  ''fileNamePrefix'' \<mapsto> get_render_filename_prefix s layer,
                  ''fileExt'' \<mapsto> PyStr ext]
      in
      attempt (get_pipeline_attr s instance_node layer) None (\<lambda>pipeline.
      let data1 = data ++ pipeline;
          inst0 = create_instance layername;
          inst1 = inst0\<lparr>inst_members := dummy_members\<rparr>;
          inst2 = inst1\<lparr>inst_data := inst_data inst1 ++ data1\<rparr>;
          inst3 = set_data ''dependencies'' (PyDict []) inst2;
          inst4 = set_data ''futureDependencies'' (PyDict []) inst3;
          inst5 = set_data ''_privilege_on_lock'' (PyBool True) inst4;
          inst6 = set_data ''family'' (PyStr ''reveries.imgseq'') inst5;
          inst7 = set_data ''families'' (PyList []) inst6
      in
      attempt (lookup (inst_data inst7) ''renderType'') (Some inst7) (\<lambda>renderType.
      attempt (variate renderType) (Some inst7) (\<lambda>process_variant.
      (case process_variant s context_data inst7 layer of
         Inl (e, partial) \<Rightarrow> Inl (e, Some partial)
       | Inr inst8 \<Rightarrow>
           let members = (case editRenderLayerMembers s layer of None \<Rightarrow> [] | Some ms \<Rightarrow> ms);
               inst9 = set_data ''renderLayerMember''
                         (PyList (map PyStr (ls_long s members))) inst8;
               descendent = (case listRelatives_allDescendents s members of
                               None \<Rightarrow> [] | Some ds \<Rightarrow> ds);
               members1 = members @ descendent;
               meshes = ls_mesh_noIntermediate s members1;
               transforms = (case listRelatives_parent s meshes of
                               None \<Rightarrow> [] | Some ts \<Rightarrow> ts)
           in
           Inr (inst9\<lparr>inst_members := inst_members inst9 @ transforms\<rparr>))))))))))"

text \<open>
  The loop itself, over the layers in their sorted order. An exception ends the pass and
  comes with the instances of the context as they stand: those of the layers before, and
  the one the failing iteration has created, if it has.
\<close>

fun process_layers ::
  "maya \<Rightarrow> (string \<rightharpoonup> pyval) \<Rightarrow> pyval \<Rightarrow> string list \<Rightarrow> string list \<Rightarrow> string list \<Rightarrow>
   publish_instance list \<Rightarrow> (error \<times> publish_instance list) + publish_instance list"
where
  "process_layers s context_data instance_node dummy_members valid_layers [] insts = Inr insts"
| "process_layers s context_data instance_node dummy_members valid_layers (layer # layers) insts =
     (if layer \<notin> set valid_layers
      then process_layers s context_data instance_node dummy_members valid_layers layers insts
      else
        (case process_layer s context_data instance_node dummy_members layer of
           Inl (e, None) \<Rightarrow> Inl (e, insts)
         | Inl (e, Some partial) \<Rightarrow> Inl (e, insts @ [partial])
         | Inr inst \<Rightarrow>
             process_layers s context_data instance_node dummy_members valid_layers layers
               (insts @ [inst])))"

text \<open>
  The first loop of \<^verbatim>\<open>process\<close>: the placeholder instances of family
  \<^verbatim>\<open>reveries.imgseq\<close> leave the context; the last one gives the instance node and
  the members every new instance starts from. An instance without a family raises, with
  the context holding what is kept so far, that instance and those not yet visited.
\<close>

fun remove_dummies ::
  "publish_instance list \<Rightarrow> pyval \<Rightarrow> string list \<Rightarrow> publish_instance list \<Rightarrow>
   (error \<times> publish_instance list) + (pyval \<times> string list \<times> publish_instance list)"
where
  "remove_dummies [] instance_node dummy_members kept = Inr (instance_node, dummy_members, kept)"
| "remove_dummies (inst # insts) instance_node dummy_members kept =
     attempt (lookup (inst_data inst) ''family'') (kept @ inst # insts) (\<lambda>family.
     if family \<in> set [PyStr ''reveries.imgseq'']
     then remove_dummies insts
            (case inst_data inst ''objectName'' of None \<Rightarrow> PyNone | Some v \<Rightarrow> v)
            (inst_members inst) kept
     else remove_dummies insts instance_node dummy_members (kept @ [inst]))"

text \<open>
  \<^verbatim>\<open>version >= 2016.5\<close> as Python 2 compares: \<^verbatim>\<open>None\<close> is below every number,
  every other non-number above.
\<close>

fun py2_ge :: "pyval \<Rightarrow> real \<Rightarrow> bool" where
  "py2_ge PyNone r = False"
| "py2_ge (PyBool b) r = ((if b then 1 else 0) \<ge> r)"
| "py2_ge (PyInt n) r = (real_of_int n \<ge> r)"
| "py2_ge (PyFloat x) r = (x \<ge> r)"
| "py2_ge v r = True"

text \<open>
  \<^verbatim>\<open>process\<close>. An exception comes with the context as the pass leaves it: the
  placeholders removed, the data written so far, the instances created so far.
\<close>

definition process :: "maya \<Rightarrow> publish_context \<Rightarrow> (error \<times> publish_context) + publish_context" where
  "process s context =
     (case remove_dummies (ctx_instances context) PyNone [] [] of
        Inl (e, insts) \<Rightarrow> Inl (e, context\<lparr>ctx_instances := insts\<rparr>)
      | Inr (instance_node, dummy_members, kept) \<Rightarrow>
          let context0 = context\<lparr>ctx_instances := kept\<rparr>
          in
          if instance_node = PyNone then Inl (AssertionError ''This is a bug.'', context0)
          else
            let connected_layers =
                  (case renderLayerManager_renderLayerId s of None \<Rightarrow> [] | Some ls \<Rightarrow> ls);
                valid_layers = remdups connected_layers
            in
            attempt (lookup (ctx_data context) ''workspaceDir'') context0 (\<lambda>workspace.
            (case workspace of
               PyStr w \<Rightarrow>
                 let cd1 = (ctx_data context)
                             (''outputDir'' \<mapsto> PyStr (os_path_join s w ''renders''));
                     cd2 = cd1(''_has_privileged_instance'' \<mapsto> PyBool True);
                     cd3 = cd2(''hasRenderLayers'' \<mapsto> PyBool (length valid_layers > 1))
                 in
                 attempt (lookup cd3 ''mayaVersion'') \<lparr>ctx_data = cd3, ctx_instances = kept\<rparr>
                   (\<lambda>version.
                 let cd4 = cd3(''usingRenderSetup'' \<mapsto>
                                 PyBool (if py2_ge version 2016.5 then mayaHasRenderSetup s
                                         else False));
                     renderlayers =
                       filter (\<lambda>i. renderable s i \<and> \<not> isNodeReferenced s i) (ls_renderLayer s)
                 in
                 (case process_layers s cd4 instance_node dummy_members valid_layers
                         (sort_key (displayOrder s) renderlayers) kept of
                    Inl (e, insts) \<Rightarrow> Inl (e, \<lparr>ctx_data = cd4, ctx_instances = insts\<rparr>)
                  | Inr insts \<Rightarrow> Inr \<lparr>ctx_data = cd4, ctx_instances = insts\<rparr>))
             | _ \<Rightarrow> Inl (TypeError ''workspace is not a string'', context0))))"

section \<open>Notions used to state the properties\<close>

text \<open>
  The coerced value an adjustment connection stores for an attribute, and where a
  connection comes from, as the scan tests it.
\<close>

definition override_value :: "maya \<Rightarrow> string \<Rightarrow> string \<Rightarrow> pyval option" where
  "override_value s node_attr conn =
     type_of s (getAttr_type s node_attr) (getAttr s (rsplit_dot_head conn @ ''.value''))"

definition from_default :: "string \<Rightarrow> bool" where
  "from_default conn = prefix ''defaultRenderLayer.adjustments'' conn"

definition from_layer :: "string \<Rightarrow> string \<Rightarrow> bool" where
  "from_layer layer conn = (\<not> from_default conn \<and> prefix (layer @ ''.adjustments'') conn)"

text \<open>The scan as a function of the connections alone.\<close>

fun scan_result :: "(string \<Rightarrow> pyval option) \<Rightarrow> string \<Rightarrow> string \<Rightarrow> string list \<Rightarrow> pyval \<Rightarrow> error + scan" where
  "scan_result val tn layer [] ov = Inr (Exhausted ov)"
| "scan_result val tn layer (c # cs) ov =
     (if from_default c then
        (case val c of None \<Rightarrow> Inl (CoercionError tn) | Some v \<Rightarrow> scan_result val tn layer cs v)
      else if from_layer layer c then
        (case val c of None \<Rightarrow> Inl (CoercionError tn) | Some v \<Rightarrow> Inr (Returned v))
      else scan_result val tn layer cs ov)"

text \<open>
  The layers linked to the render layer manager, the layers a pass publishes, in the
  order of the loop, and the instances of a context that a pass has synthesized.
\<close>

definition connected_layers :: "maya \<Rightarrow> string list" where
  "connected_layers s = (case renderLayerManager_renderLayerId s of None \<Rightarrow> [] | Some ls \<Rightarrow> ls)"

definition publishable :: "maya \<Rightarrow> string \<Rightarrow> bool" where
  "publishable s layer =
     (layer \<in> set (connected_layers s) \<and> renderable s layer \<and> \<not> isNodeReferenced s layer)"

definition layers_to_publish :: "maya \<Rightarrow> string list" where
  "layers_to_publish s =
     filter (\<lambda>l. l \<in> set (connected_layers s))
       (sort_key (displayOrder s)
          (filter (\<lambda>i. renderable s i \<and> \<not> isNodeReferenced s i) (ls_renderLayer s)))"

definition synthesized :: "publish_context \<Rightarrow> publish_instance list" where
  "synthesized context =
     filter (\<lambda>i. inst_data i ''family'' = Some (PyStr ''reveries.imgseq'')) (ctx_instances context)"

definition instance_layer :: "publish_instance \<Rightarrow> pyval option" where
  "instance_layer i = inst_data i ''renderlayer''"

text \<open>The keys of an instance's data the render-type variants write.\<close>

definition variant_keys :: "string list" where
  "variant_keys =
     [''families'', ''category'', ''optional'', ''publish'', ''useContractor'',
      ''publishContractor'', ''renderCam'', ''subset'', ''outputPaths'', ''extractType'']"

text \<open>The elements of a list in the order of their first occurrence.\<close>

fun first_occurrences :: "'a list \<Rightarrow> 'a list" where
  "first_occurrences [] = []"
| "first_occurrences (x # xs) = x # first_occurrences (filter (\<lambda>y. y \<noteq> x) xs)"

text \<open>What the lock gate is about: an instance's render type and its two flags.\<close>

definition gate_flags :: "publish_instance \<Rightarrow> pyval option \<times> pyval option \<times> pyval option" where
  "gate_flags i = (inst_data i ''renderType'', inst_data i ''optional'', inst_data i ''publish'')"

text \<open>What the renaming is about: an instance's layer and its name.\<close>

definition layer_and_name :: "publish_instance \<Rightarrow> pyval option \<times> string" where
  "layer_and_name i = (inst_data i ''renderlayer'', inst_name i)"

section \<open>A scene to evaluate on\<close>

text \<open>
  Three linked layers with display orders 3, 1 and 2, a stale, a referenced and a
  non-renderable one; a group holding two meshes and an intermediate copy under one
  transform; a camera whose \<^verbatim>\<open>renderable\<close> flag is overridden in layer \<open>fx\<close>.
\<close>

text \<open>Python's \<^verbatim>\<open>bool\<close>, the one type name bound in the scene's namespace.\<close>

definition py_bool :: "pyval \<Rightarrow> pyval option" where
  "py_bool v = Some (PyBool (truthy v))"

definition demo_attrs :: "(string \<times> pyval) list" where
  "demo_attrs =
     [(''defaultRenderGlobals.currentRenderer'', PyStr ''arnold''),
      (''defaultRenderGlobals.startFrame'', PyFloat 1),
      (''defaultRenderGlobals.endFrame'', PyFloat 24),
      (''defaultRenderGlobals.byFrameStep'', PyFloat 1),
      (''imgseqSet.asset'', PyStr ''hero''),
      (''imgseqSet.subset'', PyStr ''imgseqDefault''),
      (''imgseqSet.renderType'', PyStr ''batchrender''),
      (''imgseqSet.deadlineEnable'', PyBool True),
      (''imgseqSet.deadlinePool'', PyStr ''none''),
      (''imgseqSet.deadlineGroup'', PyStr ''none''),
      (''imgseqSet.deadlinePriority'', PyInt 80),
      (''cam|camShape.renderable'', PyBool True),
      (''defaultRenderLayer.adjustments[0].value'', PyFloat 1),
      (''fx.adjustments[0].value'', PyFloat 0),
      (''defaultRenderLayer.adjustments[1].value'', PyStr ''batchrender''),
      (''fx.adjustments[1].value'', PyStr ''turntable''),
      (''blast.adjustments[1].value'', PyStr ''playblast'')]"

definition demo_connections :: "(string \<times> string list) list" where
  "demo_connections =
     [(''cam|camShape.renderable'',
         [''defaultRenderLayer.adjustments[0].plug'', ''fx.adjustments[0].plug'']),
      (''defaultRenderGlobals.endFrame'', [''fx.renderInfo'']),
      (''imgseqSet.renderType'',
         [''defaultRenderLayer.adjustments[1].plug'', ''fx.adjustments[1].plug'',
          ''blast.adjustments[1].plug''])]"

definition demo_dag :: "dagnode list" where
  "demo_dag =
     [DagNode ''grp'' ''transform'' False
        [DagNode ''grp|body'' ''transform'' False
           [DagNode ''grp|body|bodyShape'' ''mesh'' False [],
            DagNode ''grp|body|headShape'' ''mesh'' False [],
            DagNode ''grp|body|bodyShapeOrig'' ''mesh'' True []]],
      DagNode ''cam'' ''transform'' False
        [DagNode ''cam|camShape'' ''camera'' False []]]"

definition demo_scene :: maya where
  "demo_scene =
     \<lparr>ls_renderLayer = [''defaultRenderLayer'', ''fx'', ''blast'', ''old'', ''ref:beauty'', ''off''],
      objExists = (\<lambda>plug. plug \<in> fst ` set demo_attrs),
      currentRenderLayer = ''defaultRenderLayer'',
      getAttr = (\<lambda>plug. case map_of demo_attrs plug of None \<Rightarrow> PyNone | Some v \<Rightarrow> v),
      getAttr_type = (\<lambda>plug. if plug = ''cam|camShape.renderable'' then ''bool'' else ''string''),
      listConnections = map_of demo_connections,
      py_namespace = (\<lambda>name. if name = ''bool'' then Some py_bool else None),
      renderLayerManager_renderLayerId =
        Some [''defaultRenderLayer'', ''fx'', ''blast'', ''ref:beauty'', ''off''],
      mayaHasRenderSetup = False,
      renderable = (\<lambda>layer. layer \<noteq> ''off''),
      displayOrder = (\<lambda>layer. if layer = ''defaultRenderLayer'' then 3
                               else if layer = ''fx'' then 1
                               else if layer = ''blast'' then 2 else 0),
      isNodeReferenced = (\<lambda>node. node = ''ref:beauty''),
      editRenderLayerMembers = (\<lambda>layer. if layer = ''blast'' then None else Some [''grp'']),
      dag = demo_dag,
      is_locked = False,
      os_path_join = (\<lambda>a b. a @ ''/'' @ b),
      os_path_splitext = (\<lambda>p. (rsplit_dot_head p, drop (length (rsplit_dot_head p)) p)),
      compose_render_filename =
        (\<lambda>layer aov. layer @ [CHR 0x5C] @ (if aov = [] then ''beauty'' else aov) @ ''.exr''),
      get_render_filename_prefix = (\<lambda>layer. PyStr ''<Scene>/<RenderLayer>''),
      get_vray_element_names = (\<lambda>layer. []),
      get_arnold_aov_names = (\<lambda>layer. [''diffuse'', ''specular'']),
      py_list_of_set = (\<lambda>elements. elements)\<rparr>"

definition demo_context :: publish_context where
  "demo_context =
     \<lparr>ctx_data = [''workspaceDir'' \<mapsto> PyStr ''/proj'', ''mayaVersion'' \<mapsto> PyFloat 2018],
      ctx_instances =
        [\<lparr>inst_name = ''modelDefault'', inst_members = [''grp''],
          inst_data = [''family'' \<mapsto> PyStr ''reveries.model'']\<rparr>,
         \<lparr>inst_name = ''imgseqDefault'', inst_members = [''cam''],
          inst_data = [''family'' \<mapsto> PyStr ''reveries.imgseq'',
                       ''objectName'' \<mapsto> PyStr ''imgseqSet'']\<rparr>]\<rparr>"

text \<open>The same scene with a render type the plug-in has no method for, in layer \<open>blast\<close>.\<close>

definition demo_scene_unknown :: maya where
  "demo_scene_unknown =
     demo_scene\<lparr>getAttr := (\<lambda>plug. if plug = ''blast.adjustments[1].value'' then PyStr ''preview''
                                   else getAttr demo_scene plug)\<rparr>"


text \<open>
  The same scene with three layers whose identifiers end in
  \<^verbatim>\<open>defaultRenderLayer\<close>: the default layer, one carrying an import prefix and one in a
  namespace, all linked, renderable and not referenced.
\<close>

definition demo_scene_masters :: maya where
  "demo_scene_masters =
     demo_scene
       \<lparr>ls_renderLayer := [''defaultRenderLayer'', ''fx_defaultRenderLayer'', ''ns:defaultRenderLayer''],
        renderLayerManager_renderLayerId :=
          Some [''defaultRenderLayer'', ''fx_defaultRenderLayer'', ''ns:defaultRenderLayer'']\<rparr>"

text \<open>An instance as the output-path composer receives it, for layer \<open>L1\<close>.\<close>

definition demo_instance :: "string \<Rightarrow> publish_instance" where
  "demo_instance renderer =
     \<lparr>inst_name = ''L1'', inst_members = [],
      inst_data = [''renderer'' \<mapsto> PyStr renderer, ''renderlayer'' \<mapsto> PyStr ''L1'']\<rparr>"

section \<open>The resolver: the host is left alone\<close>

lemma get_value_host: "snd (get_value tn ty conn s) = s"
  by (simp add: get_value_def cmds_getAttr_def split: option.splits)

lemma scan_connections_host: "snd (scan_connections tn ty layer conns ov s) = s"
proof (induction conns arbitrary: ov)
  case Nil
  show ?case by simp
next
  case (Cons conn conns)
  obtain r where r: "get_value tn ty conn s = (r, s)"
    using get_value_host [of tn ty conn s] by (cases "get_value tn ty conn s") simp
  show ?case
    using Cons.IH r by (cases r) simp_all
qed

lemma query_by_renderlayer_host: "snd (query_by_renderlayer node attr layer s) = s"
proof -
  let ?na = "node @ ''.'' @ attr"
  let ?cs = "case listConnections s ?na of None \<Rightarrow> [] | Some cs \<Rightarrow> cs"
  let ?tn = "getAttr_type s ?na"
  obtain r where r: "scan_connections ?tn (type_of s ?tn) layer ?cs PyNone s = (r, s)"
    using scan_connections_host [of ?tn "type_of s ?tn" layer ?cs PyNone s]
    by (cases "scan_connections ?tn (type_of s ?tn) layer ?cs PyNone s") simp
  show ?thesis
    using r
    by (simp add: query_by_renderlayer_def cmds_ls_renderLayer_def cmds_objExists_def
        cmds_editRenderLayerGlobals_query_def cmds_getAttr_def cmds_getAttr_type_def
        cmds_listConnections_def Let_def split: sum.splits scan.splits)
qed

section \<open>The resolver: what it returns\<close>

lemma fst_get_value:
  "fst (get_value tn ty conn s) =
     (case ty (getAttr s (rsplit_dot_head conn @ ''.value'')) of
        None \<Rightarrow> Inl (CoercionError tn) | Some w \<Rightarrow> Inr w)"
  by (simp add: get_value_def cmds_getAttr_def split: option.splits)

lemma get_value_eq:
  "get_value tn ty conn s =
     (case ty (getAttr s (rsplit_dot_head conn @ ''.value'')) of
        None \<Rightarrow> (Inl (CoercionError tn), s) | Some w \<Rightarrow> (Inr w, s))"
  by (simp add: get_value_def cmds_getAttr_def split: option.splits)

lemma scan_connections_eq:
  "scan_connections tn ty layer conns ov s =
     (scan_result (\<lambda>c. ty (getAttr s (rsplit_dot_head c @ ''.value''))) tn layer conns ov, s)"
  by (induction conns arbitrary: ov)
     (auto simp: get_value_eq from_default_def from_layer_def split: option.splits)


lemma query_by_renderlayer_eq:
  "query_by_renderlayer node attr layer s =
     (if layer \<notin> set (ls_renderLayer s)
        then (Inl (ValueError (''RenderLayer not exists: '' @ layer)), s)
      else if \<not> objExists s (node @ ''.'' @ attr)
        then (Inl (AttributeError (''Attribute not exists: '' @ node @ ''.'' @ attr)), s)
      else if layer = currentRenderLayer s then (Inr (getAttr s (node @ ''.'' @ attr)), s)
      else case scan_result (override_value s (node @ ''.'' @ attr))
                  (getAttr_type s (node @ ''.'' @ attr)) layer
                  (case listConnections s (node @ ''.'' @ attr) of None \<Rightarrow> [] | Some cs \<Rightarrow> cs)
                  PyNone of
             Inl e \<Rightarrow> (Inl e, s)
           | Inr (Returned v) \<Rightarrow> (Inr v, s)
           | Inr (Exhausted ov) \<Rightarrow>
               if ov \<noteq> PyNone then (Inr ov, s) else (Inr (getAttr s (node @ ''.'' @ attr)), s))"
proof -
  have ovf: "(\<lambda>c. type_of s (getAttr_type s (node @ ''.'' @ attr))
                 (getAttr s (rsplit_dot_head c @ ''.value'')))
             = override_value s (node @ ''.'' @ attr)"
    by (rule ext) (simp add: override_value_def)
  have found: "(filter (\<lambda>l. l = layer) (ls_renderLayer s) = []) = (layer \<notin> set (ls_renderLayer s))"
    by (auto simp: filter_empty_conv)
  show ?thesis
    unfolding query_by_renderlayer_def cmds_ls_renderLayer_def cmds_objExists_def
      cmds_editRenderLayerGlobals_query_def cmds_getAttr_def cmds_getAttr_type_def
      cmds_listConnections_def Let_def prod.case scan_connections_eq ovf found
    by (simp split: sum.split scan.split)
qed

lemma resolve_eq:
  "resolve s node attr layer =
     (if layer \<notin> set (ls_renderLayer s) then Inl (ValueError (''RenderLayer not exists: '' @ layer))
      else if \<not> objExists s (node @ ''.'' @ attr)
        then Inl (AttributeError (''Attribute not exists: '' @ node @ ''.'' @ attr))
      else if layer = currentRenderLayer s then Inr (getAttr s (node @ ''.'' @ attr))
      else case scan_result (override_value s (node @ ''.'' @ attr))
                  (getAttr_type s (node @ ''.'' @ attr)) layer
                  (case listConnections s (node @ ''.'' @ attr) of None \<Rightarrow> [] | Some cs \<Rightarrow> cs)
                  PyNone of
             Inl e \<Rightarrow> Inl e
           | Inr (Returned v) \<Rightarrow> Inr v
           | Inr (Exhausted ov) \<Rightarrow>
               if ov \<noteq> PyNone then Inr ov else Inr (getAttr s (node @ ''.'' @ attr)))"
  unfolding resolve_def query_by_renderlayer_eq
  by (simp split: sum.split scan.split)








text \<open>
  Claim C3 (no side effect, idempotence). A call of the resolver returns the host as it
  received it, so the active render layer is the same before and after, and a second
  call on the host the first one left returns the same result. This holds for all
  arguments, also those that make the resolver raise.
\<close>

theorem resolver_side_effect_free:
  "snd (query_by_renderlayer node attr layer s) = s
   \<and> currentRenderLayer (snd (query_by_renderlayer node attr layer s)) = currentRenderLayer s
   \<and> fst (query_by_renderlayer node attr layer (snd (query_by_renderlayer node attr layer s)))
       = fst (query_by_renderlayer node attr layer s)"
  by (simp add: query_by_renderlayer_host)

text \<open>
  Claim C4 (no-override passthrough). When no connection of an existing attribute comes
  from the adjustments of the default layer or of any render layer, the resolver returns,
  for every existing layer, the attribute's direct value; and that is what it returns
  with the queried layer made the active one, where it skips the scan.
\<close>

theorem resolver_no_override_passthrough:
  assumes "layer \<in> set (ls_renderLayer s)"
    and "objExists s (node @ ''.'' @ attr)"
    and "\<forall>conns. listConnections s (node @ ''.'' @ attr) = Some conns \<longrightarrow>
           (\<forall>c \<in> set conns. \<forall>k \<in> set (''defaultRenderLayer'' # ls_renderLayer s).
              \<not> prefix (k @ ''.adjustments'') c)"
  shows "resolve s node attr layer = Inr (getAttr s (node @ ''.'' @ attr))
       \<and> resolve (s\<lparr>currentRenderLayer := layer\<rparr>) node attr layer = resolve s node attr layer"
proof -
  let ?cs = "case listConnections s (node @ ''.'' @ attr) of None \<Rightarrow> [] | Some cs \<Rightarrow> cs"
  have none: "\<forall>c \<in> set ?cs. \<not> from_default c \<and> \<not> from_layer layer c"
  proof (cases "listConnections s (node @ ''.'' @ attr)")
    case None
    then show ?thesis by simp
  next
    case (Some cs)
    have d: "\<not> prefix ''defaultRenderLayer.adjustments'' c" if "c \<in> set cs" for c
      using assms(3) [rule_format, OF Some that, of "''defaultRenderLayer''"] by simp
    have l: "\<not> prefix (layer @ ''.adjustments'') c" if "c \<in> set cs" for c
      using assms(3) [rule_format, OF Some that, of layer] assms(1) by simp
    show ?thesis
      using Some d l by (simp add: from_default_def from_layer_def)
  qed
  have "scan_result val tn layer cs ov = Inr (Exhausted ov)"
    if "\<forall>c \<in> set cs. \<not> from_default c \<and> \<not> from_layer layer c" for val tn cs ov
    using that by (induction cs) auto
  from this [OF none]
  have slow: "scan_result (override_value s (node @ ''.'' @ attr))
                (getAttr_type s (node @ ''.'' @ attr)) layer ?cs PyNone = Inr (Exhausted PyNone)" .
  have 1: "resolve s node attr layer = Inr (getAttr s (node @ ''.'' @ attr))"
    using assms(1,2) slow by (simp add: resolve_eq)
  have 2: "resolve (s\<lparr>currentRenderLayer := layer\<rparr>) node attr layer
             = Inr (getAttr s (node @ ''.'' @ attr))"
    using assms(1,2) by (simp add: resolve_eq)
  show ?thesis using 1 2 by simp
qed

theorem resolver_no_override_passthrough_witness:
  "resolve demo_scene ''defaultRenderGlobals'' ''endFrame'' ''fx'' = Inr (PyFloat 24)
   \<and> resolve (demo_scene\<lparr>currentRenderLayer := ''fx''\<rparr>) ''defaultRenderGlobals'' ''endFrame'' ''fx''
       = resolve demo_scene ''defaultRenderGlobals'' ''endFrame'' ''fx''"
proof -
  have 1: "''fx'' \<in> set (ls_renderLayer demo_scene)"
    by (simp add: demo_scene_def)
  have 2: "objExists demo_scene (''defaultRenderGlobals'' @ ''.'' @ ''endFrame'')"
    by (simp add: demo_scene_def demo_attrs_def)
  have 3: "\<forall>conns. listConnections demo_scene (''defaultRenderGlobals'' @ ''.'' @ ''endFrame'') =
             Some conns \<longrightarrow>
           (\<forall>c \<in> set conns. \<forall>k \<in> set (''defaultRenderLayer'' # ls_renderLayer demo_scene).
              \<not> prefix (k @ ''.adjustments'') c)"
    by (simp add: demo_scene_def demo_connections_def)
  show ?thesis
    using resolver_no_override_passthrough [OF 1 2 3]
    by (simp add: demo_scene_def demo_attrs_def)
qed

text \<open>
  Claim C9 (precondition errors). A layer that does not exist raises the
  \<^verbatim>\<open>ValueError\<close> "RenderLayer not exists"; with the layer there, an attribute that
  does not exist raises the \<^verbatim>\<open>AttributeError\<close> "Attribute not exists". With both
  there the resolver raises neither: it returns a value, or passes on the exception of
  the attribute type's coercion, and it returns a value whenever that coercion accepts
  the values the connected adjustments hold.
\<close>

theorem resolver_precondition_errors:
  "(layer \<notin> set (ls_renderLayer s) \<longrightarrow>
      resolve s node attr layer = Inl (ValueError (''RenderLayer not exists: '' @ layer)))
   \<and> (layer \<in> set (ls_renderLayer s) \<and> \<not> objExists s (node @ ''.'' @ attr) \<longrightarrow>
      resolve s node attr layer = Inl (AttributeError (''Attribute not exists: '' @ node @ ''.'' @ attr)))
   \<and> (layer \<in> set (ls_renderLayer s) \<and> objExists s (node @ ''.'' @ attr) \<longrightarrow>
      (\<exists>v. resolve s node attr layer = Inr v)
      \<or> resolve s node attr layer = Inl (CoercionError (getAttr_type s (node @ ''.'' @ attr))))
   \<and> (layer \<in> set (ls_renderLayer s) \<and> objExists s (node @ ''.'' @ attr) \<and>
      (\<forall>conns. listConnections s (node @ ''.'' @ attr) = Some conns \<longrightarrow>
         (\<forall>c \<in> set conns. override_value s (node @ ''.'' @ attr) c \<noteq> None)) \<longrightarrow>
      (\<exists>v. resolve s node attr layer = Inr v))"
proof -
  have err: "scan_result val tn l cs ov = Inl e \<Longrightarrow> e = CoercionError tn" for val tn l cs ov e
    by (induction cs arbitrary: ov) (auto split: if_splits option.splits)
  have ok: "\<forall>c \<in> set cs. val c \<noteq> None \<Longrightarrow> \<exists>r. scan_result val tn l cs ov = Inr r"
    for val tn l cs ov
    by (induction cs arbitrary: ov) (auto split: if_splits option.splits)
  let ?na = "node @ ''.'' @ attr"
  let ?cs = "case listConnections s ?na of None \<Rightarrow> [] | Some cs \<Rightarrow> cs"
  let ?scan = "scan_result (override_value s ?na) (getAttr_type s ?na) layer ?cs PyNone"
  have 3: "(\<exists>v. resolve s node attr layer = Inr v)
      \<or> resolve s node attr layer = Inl (CoercionError (getAttr_type s ?na))"
    if "layer \<in> set (ls_renderLayer s)" "objExists s ?na"
  proof (cases ?scan)
    case (Inl e)
    then show ?thesis using that err [OF Inl] by (simp add: resolve_eq)
  next
    case (Inr r)
    then show ?thesis using that by (cases r) (simp_all add: resolve_eq)
  qed
  have 4: "\<exists>v. resolve s node attr layer = Inr v"
    if "layer \<in> set (ls_renderLayer s)" "objExists s ?na"
      "\<forall>conns. listConnections s ?na = Some conns \<longrightarrow>
         (\<forall>c \<in> set conns. override_value s ?na c \<noteq> None)"
  proof -
    have "\<forall>c \<in> set ?cs. override_value s ?na c \<noteq> None"
    proof (cases "listConnections s ?na")
      case None
      then show ?thesis by simp
    next
      case (Some cs)
      then show ?thesis using that(3) [rule_format, OF Some] by simp
    qed
    from ok [OF this] obtain r where "?scan = Inr r" by blast
    then show ?thesis using that(1,2) by (cases r) (simp_all add: resolve_eq)
  qed
  show ?thesis using 3 4 by (simp add: resolve_eq)
qed

theorem resolver_precondition_errors_witness:
  "resolve demo_scene ''cam|camShape'' ''renderable'' ''nope'' =
     Inl (ValueError ''RenderLayer not exists: nope'')
   \<and> resolve demo_scene ''cam|camShape'' ''focalLength'' ''fx'' =
     Inl (AttributeError ''Attribute not exists: cam|camShape.focalLength'')
   \<and> (\<exists>v. resolve demo_scene ''cam|camShape'' ''renderable'' ''fx'' = Inr v)"
proof -
  have 1: "resolve demo_scene ''cam|camShape'' ''renderable'' ''nope'' =
     Inl (ValueError ''RenderLayer not exists: nope'')"
    using resolver_precondition_errors [of "''nope''" demo_scene "''cam|camShape''" "''renderable''"]
    by (simp add: demo_scene_def)
  have 2: "resolve demo_scene ''cam|camShape'' ''focalLength'' ''fx'' =
     Inl (AttributeError ''Attribute not exists: cam|camShape.focalLength'')"
    using resolver_precondition_errors [of "''fx''" demo_scene "''cam|camShape''" "''focalLength''"]
    by (simp add: demo_scene_def demo_attrs_def)
  have 3: "\<exists>v. resolve demo_scene ''cam|camShape'' ''renderable'' ''fx'' = Inr v"
    using resolver_precondition_errors [of "''fx''" demo_scene "''cam|camShape''" "''renderable''"]
    by (simp add: demo_scene_def demo_attrs_def demo_connections_def override_value_def
        type_of_def py_bool_def)
  show ?thesis using 1 2 3 by simp
qed

section \<open>The synthesizer: what a pass builds\<close>

lemma bind_err_Inr: "bind_err m f = Inr y \<longleftrightarrow> (\<exists>x. m = Inr x \<and> f x = Inr y)"
  by (cases m) simp_all

lemma attempt_Inr: "attempt m st f = Inr y \<longleftrightarrow> (\<exists>x. m = Inr x \<and> f x = Inr y)"
  by (cases m) simp_all

lemma case_error_Inr:
  "(case m of Inl (e, st) \<Rightarrow> Inl (g e st) | Inr x \<Rightarrow> f x) = Inr y \<longleftrightarrow>
     (\<exists>x. m = Inr x \<and> f x = Inr y)"
  by (cases m) (simp_all split: prod.splits)

lemma lookup_Inr: "lookup d k = Inr v \<longleftrightarrow> d k = Some v"
  by (simp add: lookup_def split: option.splits)

lemma process_layers_shape:
  "process_layers s cd node dm valid layers insts = Inr out \<Longrightarrow>
     \<exists>new. out = insts @ new \<and>
           list_all2 (\<lambda>l i. process_layer s cd node dm l = Inr i)
             (filter (\<lambda>l. l \<in> set valid) layers) new"
proof (induction layers arbitrary: insts)
  case Nil
  then show ?case by simp
next
  case (Cons l ls)
  show ?case
  proof (cases "l \<in> set valid")
    case False
    then show ?thesis using Cons by simp
  next
    case True
    then obtain i where i: "process_layer s cd node dm l = Inr i"
      and rest: "process_layers s cd node dm valid ls (insts @ [i]) = Inr out"
      using Cons.prems by (auto split: sum.splits prod.splits option.splits)
    from Cons.IH [OF rest] obtain new where
      "out = (insts @ [i]) @ new"
      "list_all2 (\<lambda>l i. process_layer s cd node dm l = Inr i) (filter (\<lambda>l. l \<in> set valid) ls) new"
      by blast
    then show ?thesis using True i by (intro exI [of _ "i # new"]) simp
  qed
qed

lemma remove_dummies_kept:
  "remove_dummies insts node dm kept0 = Inr (node', dm', kept) \<Longrightarrow>
     kept = kept0 @ filter (\<lambda>i. inst_data i ''family'' \<noteq> Some (PyStr ''reveries.imgseq'')) insts"
proof (induction insts arbitrary: node dm kept0)
  case Nil
  then show ?case by simp
next
  case (Cons i insts)
  from Cons.prems obtain family where fam: "inst_data i ''family'' = Some family"
    and rest: "(if family \<in> set [PyStr ''reveries.imgseq'']
                then remove_dummies insts
                       (case inst_data i ''objectName'' of None \<Rightarrow> PyNone | Some v \<Rightarrow> v)
                       (inst_members i) kept0
                else remove_dummies insts node dm (kept0 @ [i])) = Inr (node', dm', kept)"
    by (auto simp: attempt_Inr lookup_Inr)
  show ?case
  proof (cases "family = PyStr ''reveries.imgseq''")
    case True
    then show ?thesis using rest fam Cons.IH by simp
  next
    case False
    then have r: "remove_dummies insts node dm (kept0 @ [i]) = Inr (node', dm', kept)"
      using rest by simp
    show ?thesis using Cons.IH [OF r] False fam by simp
  qed
qed


lemma set_data_simps:
  "inst_name (set_data k v i) = inst_name i"
  "inst_members (set_data k v i) = inst_members i"
  "inst_data (set_data k v i) k' = (if k' = k then Some v else inst_data i k')"
  by (simp_all add: set_data_def)

lemma publish_on_lock_simps:
  "inst_name (publish_on_lock s i) = inst_name i"
  "inst_members (publish_on_lock s i) = inst_members i"
  "inst_data (publish_on_lock s i) k =
     (if \<not> is_locked s \<and> (k = ''publish'' \<or> k = ''optional'') then Some (PyBool False)
      else inst_data i k)"
  by (simp_all add: publish_on_lock_def set_data_simps)

lemma collect_output_paths_Inr:
  "collect_output_paths s cd inst = Inr inst' \<longleftrightarrow>
     (\<exists>renderer layer output_dir.
        inst_data inst ''renderer'' = Some renderer \<and>
        inst_data inst ''renderlayer'' = Some (PyStr layer) \<and>
        cd ''outputDir'' = Some (PyStr output_dir) \<and>
        inst' = set_data ''outputPaths''
                  (PyDict (compose_paths s layer output_dir
                            (renderer_aov_names s renderer layer @ [[]]) [])) inst)"
proof (cases "inst_data inst ''renderer''")
  case None
  then show ?thesis by (simp add: collect_output_paths_def lookup_def)
next
  case r: (Some renderer)
  show ?thesis
  proof (cases "inst_data inst ''renderlayer''")
    case None
    then show ?thesis using r by (simp add: collect_output_paths_def lookup_def)
  next
    case l: (Some layer_v)
    show ?thesis
    proof (cases "cd ''outputDir''")
      case None
      then show ?thesis using r l
        by (cases layer_v) (simp_all add: collect_output_paths_def lookup_def)
    next
      case (Some output_dir_v)
      then show ?thesis using r l
        by (cases layer_v; cases output_dir_v)
           (auto simp: collect_output_paths_def lookup_def)
    qed
  qed
qed

lemma collect_output_paths_frame:
  "collect_output_paths s cd inst = Inr inst' \<Longrightarrow> \<exists>v. inst' = set_data ''outputPaths'' v inst"
  unfolding collect_output_paths_Inr by blast

lemma set_extraction_type_frame:
  "set_extraction_type inst = Inr inst' \<Longrightarrow> \<exists>v. inst' = set_data ''extractType'' v inst"
  by (auto simp: set_extraction_type_def bind_err_Inr split: if_splits)

lemma process_playblast_frame:
  assumes "process_playblast s cd inst layer = Inr inst'"
  shows "inst_name inst' = inst_name inst" and "inst_members inst' = inst_members inst"
    and "k \<notin> set variant_keys \<Longrightarrow> inst_data inst' k = inst_data inst k"
    and "\<not> is_locked s \<Longrightarrow> inst_data inst' ''optional'' = Some (PyBool False)"
    and "\<not> is_locked s \<Longrightarrow> inst_data inst' ''publish'' = Some (PyBool False)"
  using assms
  by (auto simp: process_playblast_def attempt_Inr Let_def set_data_simps publish_on_lock_simps
      variant_keys_def split: if_splits)


lemma process_turntable_frame:
  assumes "process_turntable s cd inst layer = Inr inst'"
  shows "inst_name inst' = inst_name inst" and "inst_members inst' = inst_members inst"
    and "k \<notin> set variant_keys \<Longrightarrow> inst_data inst' k = inst_data inst k"
    and "\<not> is_locked s \<Longrightarrow> inst_data inst' ''optional'' = Some (PyBool False)"
    and "\<not> is_locked s \<Longrightarrow> inst_data inst' ''publish'' = Some (PyBool False)"
  using assms
  by (auto simp: process_turntable_def attempt_Inr Let_def set_data_simps publish_on_lock_simps
      variant_keys_def dest!: collect_output_paths_frame set_extraction_type_frame
      split: if_splits)

lemma process_batchrender_frame:
  assumes "process_batchrender s cd inst layer = Inr inst'"
  shows "inst_name inst' = inst_name inst" and "inst_members inst' = inst_members inst"
    and "k \<notin> set variant_keys \<Longrightarrow> inst_data inst' k = inst_data inst k"
    and "inst_data inst' ''optional'' = inst_data inst ''optional''"
    and "inst_data inst' ''publish'' = inst_data inst ''publish''"
  using assms
  by (auto simp: process_batchrender_def attempt_Inr Let_def set_data_simps
      variant_keys_def dest!: collect_output_paths_frame set_extraction_type_frame
      split: if_splits)


lemma collect_pipeline_attr_Inr:
  "collect_pipeline_attr s node layer ks acc = Inr p \<Longrightarrow>
     (\<forall>k. k \<notin> set ks \<longrightarrow> p k = acc k) \<and>
     (\<forall>k \<in> set ks. \<exists>v. p k = Some v \<and> query_instance_node s node k layer = Inr v)"
proof (induction ks arbitrary: acc)
  case Nil
  then show ?case by simp
next
  case (Cons k ks)
  from Cons.prems obtain v where v: "query_instance_node s node k layer = Inr v"
    and rest: "collect_pipeline_attr s node layer ks (acc(k \<mapsto> v)) = Inr p"
    by (auto simp: bind_err_Inr)
  from Cons.IH [OF rest] have
    out: "\<And>k'. k' \<notin> set ks \<Longrightarrow> p k' = (acc(k \<mapsto> v)) k'" and
    ins: "\<And>k'. k' \<in> set ks \<Longrightarrow> \<exists>v. p k' = Some v \<and> query_instance_node s node k' layer = Inr v"
    by blast+
  show ?case
  proof (intro conjI allI impI ballI)
    fix k' assume "k' \<notin> set (k # ks)"
    then show "p k' = acc k'" using out [of k'] by simp
  next
    fix k' assume k': "k' \<in> set (k # ks)"
    show "\<exists>v. p k' = Some v \<and> query_instance_node s node k' layer = Inr v"
    proof (cases "k' \<in> set ks")
      case True
      then show ?thesis using ins by blast
    next
      case False
      then have "k' = k" using k' by simp
      then show ?thesis using out [of k'] False v by simp
    qed
  qed
qed

text \<open>What the loop body has built when the variant's method is called.\<close>

lemma process_layer_Inr:
  assumes "process_layer s cd node dm layer = Inr i"
  obtains renderType pv inst7 inst8 v where
    "query_instance_node s node ''renderType'' layer = Inr renderType"
    "variate renderType = Inr pv"
    "pv s cd inst7 layer = Inr inst8"
    "inst_name inst7 = (if suffix ''defaultRenderLayer'' layer then ''masterLayer'' else layer)"
    "inst_members inst7 = dm"
    "inst_data inst7 ''family'' = Some (PyStr ''reveries.imgseq'')"
    "inst_data inst7 ''renderlayer'' = Some (PyStr layer)"
    "inst_data inst7 ''renderType'' = Some renderType"
    "inst_data inst7 ''optional'' = None"
    "inst_data inst7 ''publish'' = None"
    "i = (set_data ''renderLayerMember'' v inst8)
           \<lparr>inst_members := inst_members inst8 @
              (case listRelatives_parent s
                      (ls_mesh_noIntermediate s
                         ((case editRenderLayerMembers s layer of None \<Rightarrow> [] | Some ms \<Rightarrow> ms) @
                          (case listRelatives_allDescendents s
                                  (case editRenderLayerMembers s layer of None \<Rightarrow> [] | Some ms \<Rightarrow> ms) of
                             None \<Rightarrow> [] | Some ds \<Rightarrow> ds))) of
                 None \<Rightarrow> [] | Some ts \<Rightarrow> ts)\<rparr>"
proof -
  from assms obtain renderer startFrame endFrame byFrameStep pipeline where
    p: "get_pipeline_attr s node layer = Inr pipeline"
    and body: "(let data = [''renderlayer'' \<mapsto> PyStr layer,
                  ''startFrame'' \<mapsto> startFrame,
                  ''endFrame'' \<mapsto> endFrame,
                  ''byFrameStep'' \<mapsto> byFrameStep,
                  ''renderer'' \<mapsto> renderer,
                  ''fileNamePrefix'' \<mapsto> get_render_filename_prefix s layer,
                  ''fileExt'' \<mapsto> PyStr (snd (os_path_splitext s (compose_render_filename s layer [])))];
          data1 = data ++ pipeline;
          inst0 = create_instance (if suffix ''defaultRenderLayer'' layer then ''masterLayer'' else layer);
          inst1 = inst0\<lparr>inst_members := dm\<rparr>;
          inst2 = inst1\<lparr>inst_data := inst_data inst1 ++ data1\<rparr>;
          inst3 = set_data ''dependencies'' (PyDict []) inst2;
          inst4 = set_data ''futureDependencies'' (PyDict []) inst3;
          inst5 = set_data ''_privilege_on_lock'' (PyBool True) inst4;
          inst6 = set_data ''family'' (PyStr ''reveries.imgseq'') inst5;
          inst7 = set_data ''families'' (PyList []) inst6
      in
      attempt (lookup (inst_data inst7) ''renderType'') (Some inst7) (\<lambda>renderType.
      attempt (variate renderType) (Some inst7) (\<lambda>process_variant.
      (case process_variant s cd inst7 layer of
         Inl (e, partial) \<Rightarrow> Inl (e, Some partial)
       | Inr inst8 \<Rightarrow>
      let members = (case editRenderLayerMembers s layer of None \<Rightarrow> [] | Some ms \<Rightarrow> ms);
          inst9 = set_data ''renderLayerMember'' (PyList (map PyStr (ls_long s members))) inst8;
          descendent = (case listRelatives_allDescendents s members of
                          None \<Rightarrow> [] | Some ds \<Rightarrow> ds);
          members1 = members @ descendent;
          meshes = ls_mesh_noIntermediate s members1;
          transforms = (case listRelatives_parent s meshes of None \<Rightarrow> [] | Some ts \<Rightarrow> ts)
      in
      Inr (inst9\<lparr>inst_members := inst_members inst9 @ transforms\<rparr>))))) = Inr i"
    unfolding process_layer_def attempt_Inr Let_def by blast
  have pipe: "\<And>k. k \<notin> set pipeline_attrs \<Longrightarrow> pipeline k = None"
    and rt: "\<exists>v. pipeline ''renderType'' = Some v \<and>
                 query_instance_node s node ''renderType'' layer = Inr v"
    using collect_pipeline_attr_Inr [OF p [unfolded get_pipeline_attr_def]]
    by (simp_all add: pipeline_attrs_def)
  then obtain renderType where rt1: "pipeline ''renderType'' = Some renderType"
    and rt2: "query_instance_node s node ''renderType'' layer = Inr renderType" by blast
  have p1: "pipeline ''renderlayer'' = None" "pipeline ''optional'' = None"
    "pipeline ''publish'' = None"
    by (rule pipe, simp add: pipeline_attrs_def)+
  define inst7 where "inst7 =
     set_data ''families'' (PyList [])
      (set_data ''family'' (PyStr ''reveries.imgseq'')
        (set_data ''_privilege_on_lock'' (PyBool True)
          (set_data ''futureDependencies'' (PyDict [])
            (set_data ''dependencies'' (PyDict [])
              (create_instance (if suffix ''defaultRenderLayer'' layer then ''masterLayer'' else layer)
                 \<lparr>inst_members := dm,
                  inst_data :=
                    inst_data (create_instance
                       (if suffix ''defaultRenderLayer'' layer then ''masterLayer'' else layer)
                       \<lparr>inst_members := dm\<rparr>) ++
                    ([''renderlayer'' \<mapsto> PyStr layer,
                      ''startFrame'' \<mapsto> startFrame,
                      ''endFrame'' \<mapsto> endFrame,
                      ''byFrameStep'' \<mapsto> byFrameStep,
                      ''renderer'' \<mapsto> renderer,
                      ''fileNamePrefix'' \<mapsto> get_render_filename_prefix s layer,
                      ''fileExt'' \<mapsto> PyStr (snd (os_path_splitext s (compose_render_filename s layer [])))]
                     ++ pipeline)\<rparr>)))))"
  have props:
    "inst_name inst7 = (if suffix ''defaultRenderLayer'' layer then ''masterLayer'' else layer)"
    "inst_members inst7 = dm"
    "inst_data inst7 ''family'' = Some (PyStr ''reveries.imgseq'')"
    "inst_data inst7 ''renderlayer'' = Some (PyStr layer)"
    "inst_data inst7 ''renderType'' = Some renderType"
    "inst_data inst7 ''optional'' = None"
    "inst_data inst7 ''publish'' = None"
    by (simp_all add: inst7_def set_data_simps create_instance_def map_add_def p1 rt1)
  from body obtain pv inst8 where
    "variate renderType = Inr pv" "pv s cd inst7 layer = Inr inst8"
    and i: "i = (set_data ''renderLayerMember''
                   (PyList (map PyStr (ls_long s
                      (case editRenderLayerMembers s layer of None \<Rightarrow> [] | Some ms \<Rightarrow> ms)))) inst8)
           \<lparr>inst_members := inst_members inst8 @
              (case listRelatives_parent s
                      (ls_mesh_noIntermediate s
                         ((case editRenderLayerMembers s layer of None \<Rightarrow> [] | Some ms \<Rightarrow> ms) @
                          (case listRelatives_allDescendents s
                                  (case editRenderLayerMembers s layer of None \<Rightarrow> [] | Some ms \<Rightarrow> ms) of
                             None \<Rightarrow> [] | Some ds \<Rightarrow> ds))) of
                 None \<Rightarrow> [] | Some ts \<Rightarrow> ts)\<rparr>"
    unfolding Let_def attempt_Inr case_error_Inr lookup_Inr inst7_def [symmetric] props(5)
    by (auto simp: set_data_simps)
  then show thesis using that rt2 props by blast
qed


lemma variate_Inr:
  "variate renderType = Inr pv \<longleftrightarrow>
     (renderType = PyStr ''playblast'' \<and> pv = process_playblast) \<or>
     (renderType = PyStr ''turntable'' \<and> pv = process_turntable) \<or>
     (renderType = PyStr ''batchrender'' \<and> pv = process_batchrender)"
  by (cases renderType) (auto simp: variate_def)

lemma variant_frame:
  assumes "variate renderType = Inr pv" and "pv s cd inst layer = Inr inst'"
  shows "inst_name inst' = inst_name inst" and "inst_members inst' = inst_members inst"
    and "k \<notin> set variant_keys \<Longrightarrow> inst_data inst' k = inst_data inst k"
proof -
  from assms(1) consider "pv = process_playblast" | "pv = process_turntable"
    | "pv = process_batchrender"
    unfolding variate_Inr by blast
  then have "inst_name inst' = inst_name inst \<and> inst_members inst' = inst_members inst
      \<and> (k \<notin> set variant_keys \<longrightarrow> inst_data inst' k = inst_data inst k)"
  proof cases
    case 1
    then show ?thesis using assms(2) process_playblast_frame(1-3) by blast
  next
    case 2
    then show ?thesis using assms(2) process_turntable_frame(1-3) by blast
  next
    case 3
    then show ?thesis using assms(2) process_batchrender_frame(1-3) by blast
  qed
  then show "inst_name inst' = inst_name inst" and "inst_members inst' = inst_members inst"
    and "k \<notin> set variant_keys \<Longrightarrow> inst_data inst' k = inst_data inst k"
    by simp_all
qed

lemma process_layer_props:
  assumes "process_layer s cd node dm layer = Inr i"
  shows "inst_name i = (if suffix ''defaultRenderLayer'' layer then ''masterLayer'' else layer)"
    and "inst_data i ''family'' = Some (PyStr ''reveries.imgseq'')"
    and "inst_data i ''renderlayer'' = Some (PyStr layer)"
    and "\<exists>renderType. inst_data i ''renderType'' = Some renderType \<and>
           query_instance_node s node ''renderType'' layer = Inr renderType \<and>
           renderType \<in> {PyStr ''playblast'', PyStr ''turntable'', PyStr ''batchrender''}"
proof -
  from assms obtain renderType pv inst7 inst8 v where
    q: "query_instance_node s node ''renderType'' layer = Inr renderType"
    and var: "variate renderType = Inr pv" and run: "pv s cd inst7 layer = Inr inst8"
    and n7: "inst_name inst7 = (if suffix ''defaultRenderLayer'' layer then ''masterLayer'' else layer)"
    and d7: "inst_data inst7 ''family'' = Some (PyStr ''reveries.imgseq'')"
      "inst_data inst7 ''renderlayer'' = Some (PyStr layer)"
      "inst_data inst7 ''renderType'' = Some renderType"
    and i: "inst_name i = inst_name inst8"
      "\<And>k. k \<noteq> ''renderLayerMember'' \<Longrightarrow> inst_data i k = inst_data inst8 k"
    by (rule process_layer_Inr) (simp add: set_data_simps)
  have keep: "inst_data inst8 ''family'' = inst_data inst7 ''family''"
    "inst_data inst8 ''renderlayer'' = inst_data inst7 ''renderlayer''"
    "inst_data inst8 ''renderType'' = inst_data inst7 ''renderType''"
    by (rule variant_frame(3) [OF var run], simp add: variant_keys_def)+
  show "inst_name i = (if suffix ''defaultRenderLayer'' layer then ''masterLayer'' else layer)"
    using i(1) variant_frame(1) [OF var run] n7 by simp
  show "inst_data i ''family'' = Some (PyStr ''reveries.imgseq'')"
    using i(2) [of "''family''"] keep d7 by simp
  show "inst_data i ''renderlayer'' = Some (PyStr layer)"
    using i(2) [of "''renderlayer''"] keep d7 by simp
  have "renderType \<in> {PyStr ''playblast'', PyStr ''turntable'', PyStr ''batchrender''}"
    using var unfolding variate_Inr by blast
  then show "\<exists>renderType. inst_data i ''renderType'' = Some renderType \<and>
           query_instance_node s node ''renderType'' layer = Inr renderType \<and>
           renderType \<in> {PyStr ''playblast'', PyStr ''turntable'', PyStr ''batchrender''}"
    using i(2) [of "''renderType''"] keep d7 q by simp
qed

lemma process_Inr:
  assumes "process s ctx = Inr ctx'"
  obtains node dm kept new where
    "remove_dummies (ctx_instances ctx) PyNone [] [] = Inr (node, dm, kept)"
    "kept = filter (\<lambda>i. inst_data i ''family'' \<noteq> Some (PyStr ''reveries.imgseq''))
              (ctx_instances ctx)"
    "ctx_instances ctx' = kept @ new"
    "list_all2 (\<lambda>l i. process_layer s (ctx_data ctx') node dm l = Inr i) (layers_to_publish s) new"
proof -
  from assms obtain node dm kept where
    rd: "remove_dummies (ctx_instances ctx) PyNone [] [] = Inr (node, dm, kept)"
    by (cases "remove_dummies (ctx_instances ctx) PyNone [] []") (auto simp: process_def)
  have kept: "kept = filter (\<lambda>i. inst_data i ''family'' \<noteq> Some (PyStr ''reveries.imgseq''))
              (ctx_instances ctx)"
    using remove_dummies_kept [OF rd] by simp
  have "\<exists>w. lookup (ctx_data ctx) ''workspaceDir'' = Inr (PyStr w)"
  proof (cases "ctx_data ctx ''workspaceDir''")
    case None
    then show ?thesis using assms rd
      by (simp add: process_def lookup_def Let_def split: if_splits)
  next
    case (Some v)
    then show ?thesis using assms rd
      by (cases v) (simp_all add: process_def lookup_def Let_def split: if_splits)
  qed
  then obtain w where w: "lookup (ctx_data ctx) ''workspaceDir'' = Inr (PyStr w)" by blast
  from assms obtain cd insts where
    loop: "process_layers s cd node dm (remdups (connected_layers s))
             (sort_key (displayOrder s)
                (filter (\<lambda>i. renderable s i \<and> \<not> isNodeReferenced s i) (ls_renderLayer s)))
             kept = Inr insts"
    and ctx': "ctx' = \<lparr>ctx_data = cd, ctx_instances = insts\<rparr>"
    unfolding process_def rd w connected_layers_def [symmetric]
    by (auto simp: attempt_Inr case_error_Inr Let_def split: if_splits)
  from process_layers_shape [OF loop] obtain new where
    "insts = kept @ new"
    "list_all2 (\<lambda>l i. process_layer s cd node dm l = Inr i) (layers_to_publish s) new"
    by (auto simp: layers_to_publish_def)
  then show thesis using that rd kept ctx' by simp
qed

lemma synthesized_new:
  assumes "kept = filter (\<lambda>i. inst_data i ''family'' \<noteq> Some (PyStr ''reveries.imgseq'')) old"
    and "ctx_instances ctx' = kept @ new"
    and "list_all2 (\<lambda>l i. process_layer s cd node dm l = Inr i) layers new"
  shows "synthesized ctx' = new"
proof -
  have "\<forall>i \<in> set new. inst_data i ''family'' = Some (PyStr ''reveries.imgseq'')"
    using assms(3) process_layer_props(2) by (fastforce simp: list_all2_conv_all_nth in_set_conv_nth)
  then have "filter (\<lambda>i. inst_data i ''family'' = Some (PyStr ''reveries.imgseq'')) new = new"
    by simp
  moreover have "filter (\<lambda>i. inst_data i ''family'' = Some (PyStr ''reveries.imgseq'')) kept = []"
    by (simp add: assms(1) filter_empty_conv)
  ultimately show ?thesis using assms(2) by (simp add: synthesized_def)
qed

section \<open>The synthesizer: order, names and completeness\<close>

lemma demo_process_ok: "\<not> isl (process demo_scene demo_context)"
  by code_simp

lemma demo_process_Inr:
  "process demo_scene demo_context = Inr (projr (process demo_scene demo_context))"
  using demo_process_ok by (cases "process demo_scene demo_context") simp_all

lemma process_synthesized:
  assumes "process s ctx = Inr ctx'"
  obtains node dm where
    "\<exists>kept. remove_dummies (ctx_instances ctx) PyNone [] [] = Inr (node, dm, kept)"
    "list_all2 (\<lambda>l i. process_layer s (ctx_data ctx') node dm l = Inr i)
       (layers_to_publish s) (synthesized ctx')"
proof -
  from assms obtain node dm kept new where
    1: "remove_dummies (ctx_instances ctx) PyNone [] [] = Inr (node, dm, kept)"
    and 2: "kept = filter (\<lambda>i. inst_data i ''family'' \<noteq> Some (PyStr ''reveries.imgseq''))
              (ctx_instances ctx)"
    and 3: "ctx_instances ctx' = kept @ new"
    and 4: "list_all2 (\<lambda>l i. process_layer s (ctx_data ctx') node dm l = Inr i)
              (layers_to_publish s) new"
    by (rule process_Inr)
  have "synthesized ctx' = new" using synthesized_new [OF 2 3 4] .
  then show thesis using that 1 4 by blast
qed

lemma list_all2_map_eq:
  "list_all2 (\<lambda>x y. f y = g x) xs ys \<Longrightarrow> map f ys = map g xs"
  by (induction xs ys rule: list_all2_induct) simp_all

lemma layers_to_publish_eq:
  "layers_to_publish s = sort_key (displayOrder s) (filter (publishable s) (ls_renderLayer s))"
proof -
  have "filter (\<lambda>l. l \<in> set (connected_layers s))
          (filter (\<lambda>i. renderable s i \<and> \<not> isNodeReferenced s i) (ls_renderLayer s))
        = filter (publishable s) (ls_renderLayer s)"
    unfolding filter_filter publishable_def by (rule filter_cong) auto
  then show ?thesis
    unfolding layers_to_publish_def filter_sort by simp
qed

lemma synthesized_layers:
  assumes "process s ctx = Inr ctx'"
  shows "map instance_layer (synthesized ctx') = map (\<lambda>l. Some (PyStr l)) (layers_to_publish s)"
proof -
  from assms obtain node dm where
    all: "list_all2 (\<lambda>l i. process_layer s (ctx_data ctx') node dm l = Inr i)
            (layers_to_publish s) (synthesized ctx')"
    by (rule process_synthesized)
  have "list_all2 (\<lambda>l i. instance_layer i = Some (PyStr l)) (layers_to_publish s) (synthesized ctx')"
    using all by (rule list_all2_mono) (simp add: instance_layer_def process_layer_props(3))
  then show ?thesis by (rule list_all2_map_eq)
qed

text \<open>
  Claim C5 (emission order). After a pass that ends without an exception, the
  synthesized instances stand in the context in the order of the layers the pass
  publishes: ascending in \<^verbatim>\<open>displayOrder\<close>, and, among layers of one display
  order, in the order in which \<^verbatim>\<open>cmds.ls\<close> lists them.
\<close>

theorem emission_order:
  assumes "process s ctx = Inr ctx'"
  shows "map instance_layer (synthesized ctx') = map (\<lambda>l. Some (PyStr l)) (layers_to_publish s)
       \<and> sorted (map (displayOrder s) (layers_to_publish s))
       \<and> (\<forall>k. filter (\<lambda>l. displayOrder s l = k) (layers_to_publish s)
              = filter (\<lambda>l. displayOrder s l = k) (filter (publishable s) (ls_renderLayer s)))"
proof -
  have 1: "map instance_layer (synthesized ctx') = map (\<lambda>l. Some (PyStr l)) (layers_to_publish s)"
    using synthesized_layers [OF assms] .
  have 2: "sorted (map (displayOrder s) (layers_to_publish s))"
    by (simp add: layers_to_publish_eq)
  have 3: "filter (\<lambda>l. displayOrder s l = k) (layers_to_publish s)
              = filter (\<lambda>l. displayOrder s l = k) (filter (publishable s) (ls_renderLayer s))" for k
    unfolding layers_to_publish_eq by (rule sort_key_stable)
  show ?thesis using 1 2 3 by simp
qed


lemma demo_layers: "layers_to_publish demo_scene = [''fx'', ''blast'', ''defaultRenderLayer'']"
  by code_simp

theorem emission_order_witness:
  "map instance_layer (synthesized (projr (process demo_scene demo_context)))
     = [Some (PyStr ''fx''), Some (PyStr ''blast''), Some (PyStr ''defaultRenderLayer'')]
   \<and> map (displayOrder demo_scene) (ls_renderLayer demo_scene) = [3, 1, 2, 0, 0, 0]
   \<and> map (displayOrder demo_scene) (layers_to_publish demo_scene) = [1, 2, 3]"
  using emission_order [OF demo_process_Inr]
  by (simp add: demo_layers) (simp add: demo_scene_def)

text \<open>
  Claim C10 (master layer renaming), as the code has it. After a pass that ends without
  an exception, the instance of every layer whose identifier ends in
  \<^verbatim>\<open>defaultRenderLayer\<close> is named \<^verbatim>\<open>masterLayer\<close>, and the instance of every other
  layer carries the layer's identifier. The claim gives the label to the default layer
  alone; the collector tests \<^verbatim>\<open>layer.endswith("defaultRenderLayer")\<close>, which also holds
  of a layer with an import prefix or a namespace before that name, and the
  counterexample below shows three instances named \<^verbatim>\<open>masterLayer\<close> in one pass.
\<close>

theorem master_layer_renaming:
  assumes "process s ctx = Inr ctx'"
  shows "map (\<lambda>i. (instance_layer i, inst_name i)) (synthesized ctx')
           = map (\<lambda>l. (Some (PyStr l),
                         if suffix ''defaultRenderLayer'' l then ''masterLayer'' else l))
               (layers_to_publish s)"
proof -
  from assms obtain node dm where
    all: "list_all2 (\<lambda>l i. process_layer s (ctx_data ctx') node dm l = Inr i)
            (layers_to_publish s) (synthesized ctx')"
    by (rule process_synthesized)
  have "list_all2 (\<lambda>l i. (instance_layer i, inst_name i) =
            (Some (PyStr l), if suffix ''defaultRenderLayer'' l then ''masterLayer'' else l))
          (layers_to_publish s) (synthesized ctx')"
    using all
    by (rule list_all2_mono) (simp add: instance_layer_def process_layer_props(1,3))
  then show ?thesis by (rule list_all2_map_eq)
qed

theorem master_layer_renaming_counterexample:
  "\<not> isl (process demo_scene_masters demo_context)
   \<and> map layer_and_name (synthesized (projr (process demo_scene_masters demo_context))) =
       [(Some (PyStr ''fx_defaultRenderLayer''), ''masterLayer''),
        (Some (PyStr ''ns:defaultRenderLayer''), ''masterLayer''),
        (Some (PyStr ''defaultRenderLayer''), ''masterLayer'')]"
  by code_simp

theorem master_layer_renaming_witness:
  "map (\<lambda>i. (instance_layer i, inst_name i)) (synthesized (projr (process demo_scene demo_context)))
     = [(Some (PyStr ''fx''), ''fx''), (Some (PyStr ''blast''), ''blast''),
        (Some (PyStr ''defaultRenderLayer''), ''masterLayer'')]"
  using master_layer_renaming [OF demo_process_Inr]
  by (simp add: demo_layers suffix_to_prefix)

lemma length_filter_eq_distinct:
  "distinct xs \<Longrightarrow> length (filter (\<lambda>y. y = x) xs) = (if x \<in> set xs then 1 else 0)"
  by (induction xs) auto

lemma list_all2_lookup:
  "list_all2 P xs ys \<Longrightarrow> x \<in> set xs \<Longrightarrow> \<exists>y \<in> set ys. P x y"
  by (induction xs ys rule: list_all2_induct) auto

text \<open>
  Claim C6 (variant completeness). After a pass that ends without an exception, over
  layers that \<^verbatim>\<open>cmds.ls\<close> lists once each, a layer has exactly one synthesized
  instance if it is linked to the render layer manager, renderable and not referenced,
  and none otherwise; the loop passes over a layer that is not linked without doing
  anything; and a publishable layer whose render type resolves to anything but
  \<^verbatim>\<open>playblast\<close>, \<^verbatim>\<open>turntable\<close> or \<^verbatim>\<open>batchrender\<close> makes the pass end
  with an exception.
\<close>

theorem variant_completeness:
  "(process s ctx = Inr ctx' \<and> distinct (ls_renderLayer s) \<longrightarrow>
      (\<forall>l. length (filter (\<lambda>i. instance_layer i = Some (PyStr l)) (synthesized ctx'))
             = (if l \<in> set (ls_renderLayer s) \<and> publishable s l then 1 else 0)))
   \<and> (\<forall>cd node dm valid l layers insts. l \<notin> set valid \<longrightarrow>
        process_layers s cd node dm valid (l # layers) insts
          = process_layers s cd node dm valid layers insts)
   \<and> (\<forall>node dm kept l.
        remove_dummies (ctx_instances ctx) PyNone [] [] = Inr (node, dm, kept) \<and>
        l \<in> set (ls_renderLayer s) \<and> publishable s l \<and>
        query_instance_node s node ''renderType'' l \<notin>
          {Inr (PyStr ''playblast''), Inr (PyStr ''turntable''), Inr (PyStr ''batchrender'')} \<longrightarrow>
        isl (process s ctx))"
proof (intro conjI allI impI)
  fix l
  assume a: "process s ctx = Inr ctx' \<and> distinct (ls_renderLayer s)"
  then have ok: "process s ctx = Inr ctx'" and d: "distinct (ls_renderLayer s)" by simp_all
  have m: "map instance_layer (synthesized ctx') = map (\<lambda>l. Some (PyStr l)) (layers_to_publish s)"
    using synthesized_layers [OF ok] .
  have "length (filter (\<lambda>i. instance_layer i = Some (PyStr l)) (synthesized ctx'))
          = length (filter (\<lambda>v. v = Some (PyStr l)) (map instance_layer (synthesized ctx')))"
    by (simp add: filter_map comp_def)
  also have "\<dots> = length (filter (\<lambda>l'. l' = l) (layers_to_publish s))"
    unfolding m by (simp add: filter_map comp_def)
  also have "\<dots> = (if l \<in> set (layers_to_publish s) then 1 else 0)"
    by (rule length_filter_eq_distinct) (simp add: layers_to_publish_eq d)
  also have "\<dots> = (if l \<in> set (ls_renderLayer s) \<and> publishable s l then 1 else 0)"
    by (simp add: layers_to_publish_eq)
  finally show "length (filter (\<lambda>i. instance_layer i = Some (PyStr l)) (synthesized ctx'))
             = (if l \<in> set (ls_renderLayer s) \<and> publishable s l then 1 else 0)" .
next
  fix cd node dm and valid :: "string list" and l layers insts
  assume "l \<notin> set valid"
  then show "process_layers s cd node dm valid (l # layers) insts
          = process_layers s cd node dm valid layers insts" by simp
next
  fix node dm kept l
  assume a: "remove_dummies (ctx_instances ctx) PyNone [] [] = Inr (node, dm, kept) \<and>
        l \<in> set (ls_renderLayer s) \<and> publishable s l \<and>
        query_instance_node s node ''renderType'' l \<notin>
          {Inr (PyStr ''playblast''), Inr (PyStr ''turntable''), Inr (PyStr ''batchrender'')}"
  show "isl (process s ctx)"
  proof (rule ccontr)
    assume "\<not> isl (process s ctx)"
    then obtain ctx' where ok: "process s ctx = Inr ctx'"
      by (cases "process s ctx") simp_all
    from ok obtain node' dm' where
      rd: "\<exists>kept. remove_dummies (ctx_instances ctx) PyNone [] [] = Inr (node', dm', kept)"
      and all: "list_all2 (\<lambda>l i. process_layer s (ctx_data ctx') node' dm' l = Inr i)
            (layers_to_publish s) (synthesized ctx')"
      by (rule process_synthesized)
    have n: "node' = node" "dm' = dm" using rd a by auto
    have "l \<in> set (layers_to_publish s)" using a by (simp add: layers_to_publish_eq)
    from list_all2_lookup [OF all this] obtain i where
      "process_layer s (ctx_data ctx') node dm l = Inr i" using n by blast
    from process_layer_props(4) [OF this] show False using a by auto
  qed
qed

lemma demo_remove_dummies:
  "\<exists>kept. remove_dummies (ctx_instances demo_context) PyNone [] [] =
     Inr (PyStr ''imgseqSet'', [''cam''], kept)"
  by (simp add: demo_context_def lookup_def)

lemma demo_unknown_render_type:
  "query_instance_node demo_scene_unknown (PyStr ''imgseqSet'') ''renderType'' ''blast'' = Inr (PyStr ''preview'')"
  by code_simp

text \<open>
  What the pass over that scene leaves behind: the placeholder is gone, the instance of layer \<open>fx\<close> is
  complete, and the instance created for layer \<open>blast\<close> stays in the context as it was
  when \<^verbatim>\<open>getattr\<close> raised, with its list of families still empty.
\<close>

lemma demo_unknown_context:
  "fst (projl (process demo_scene_unknown demo_context)) = AttributeError ''process_preview''
   \<and> map inst_name (ctx_instances (snd (projl (process demo_scene_unknown demo_context))))
       = [''modelDefault'', ''fx'', ''blast'']
   \<and> inst_data (last (ctx_instances (snd (projl (process demo_scene_unknown demo_context)))))
         ''families'' = Some (PyList [])
   \<and> ctx_data (snd (projl (process demo_scene_unknown demo_context))) ''outputDir''
       = Some (PyStr ''/proj/renders'')"
  by code_simp

theorem variant_completeness_witness:
  "length (filter (\<lambda>i. instance_layer i = Some (PyStr ''fx''))
             (synthesized (projr (process demo_scene demo_context)))) = 1
   \<and> length (filter (\<lambda>i. instance_layer i = Some (PyStr ''old''))
             (synthesized (projr (process demo_scene demo_context)))) = 0
   \<and> isl (process demo_scene_unknown demo_context)"
proof -
  have d: "distinct (ls_renderLayer demo_scene)" by (simp add: demo_scene_def)
  have fx: "''fx'' \<in> set (ls_renderLayer demo_scene) \<and> publishable demo_scene ''fx''"
    by code_simp
  have old: "\<not> publishable demo_scene ''old''" by code_simp
  have count: "length (filter (\<lambda>i. instance_layer i = Some (PyStr l))
                 (synthesized (projr (process demo_scene demo_context))))
          = (if l \<in> set (ls_renderLayer demo_scene) \<and> publishable demo_scene l then 1 else 0)" for l
    using variant_completeness [of demo_scene demo_context "projr (process demo_scene demo_context)"]
      demo_process_Inr d by blast
  have blast: "''blast'' \<in> set (ls_renderLayer demo_scene_unknown) \<and>
      publishable demo_scene_unknown ''blast''"
    by code_simp
  obtain kept where kept: "remove_dummies (ctx_instances demo_context) PyNone [] [] =
     Inr (PyStr ''imgseqSet'', [''cam''], kept)"
    using demo_remove_dummies by blast
  have "isl (process demo_scene_unknown demo_context)"
    using variant_completeness [of demo_scene_unknown demo_context undefined, THEN conjunct2,
        THEN conjunct2, rule_format, of "PyStr ''imgseqSet''" "[''cam'']" kept "''blast''"]
      kept blast demo_unknown_render_type by simp
  then show ?thesis using count [of "''fx''"] count [of "''old''"] fx old by simp
qed

lemma process_layer_gate:
  assumes "process_layer s cd node dm layer = Inr i"
  shows "inst_data i ''renderType'' = Some (PyStr ''playblast'') \<or>
         inst_data i ''renderType'' = Some (PyStr ''turntable'') \<Longrightarrow> \<not> is_locked s \<Longrightarrow>
           inst_data i ''optional'' = Some (PyBool False) \<and>
           inst_data i ''publish'' = Some (PyBool False)"
    and "inst_data i ''renderType'' = Some (PyStr ''batchrender'') \<Longrightarrow>
           inst_data i ''optional'' = None \<and> inst_data i ''publish'' = None"
proof -
  from assms obtain renderType pv inst7 inst8 v where
    var: "variate renderType = Inr pv" and run: "pv s cd inst7 layer = Inr inst8"
    and d7: "inst_data inst7 ''renderType'' = Some renderType"
      "inst_data inst7 ''optional'' = None" "inst_data inst7 ''publish'' = None"
    and i: "\<And>k. k \<noteq> ''renderLayerMember'' \<Longrightarrow> inst_data i k = inst_data inst8 k"
    by (rule process_layer_Inr) (simp add: set_data_simps)
  have "inst_data inst8 ''renderType'' = inst_data inst7 ''renderType''"
    by (rule variant_frame(3) [OF var run]) (simp add: variant_keys_def)
  then have rt: "inst_data i ''renderType'' = Some renderType"
    using i [of "''renderType''"] d7 by simp
  have flags: "inst_data i ''optional'' = inst_data inst8 ''optional''"
    "inst_data i ''publish'' = inst_data inst8 ''publish''"
    using i by simp_all
  {
    assume "inst_data i ''renderType'' = Some (PyStr ''playblast'') \<or>
         inst_data i ''renderType'' = Some (PyStr ''turntable'')" and unlocked: "\<not> is_locked s"
    then have "pv = process_playblast \<or> pv = process_turntable"
      using rt var unfolding variate_Inr by auto
    then show "inst_data i ''optional'' = Some (PyBool False) \<and>
           inst_data i ''publish'' = Some (PyBool False)"
      using run unlocked flags process_playblast_frame(4,5) process_turntable_frame(4,5)
      by metis
  }
  {
    assume "inst_data i ''renderType'' = Some (PyStr ''batchrender'')"
    then have "pv = process_batchrender"
      using rt var unfolding variate_Inr by auto
    then show "inst_data i ''optional'' = None \<and> inst_data i ''publish'' = None"
      using run flags d7 process_batchrender_frame(4,5) by metis
  }
qed

text \<open>
  Claim C2 (publish-lock gate), as the code has it. After a pass over a scene that is
  not locked, every synthesized instance of render type \<^verbatim>\<open>playblast\<close> or
  \<^verbatim>\<open>turntable\<close> has its \<^verbatim>\<open>optional\<close> and \<^verbatim>\<open>publish\<close> flags set to false,
  and an instance of render type \<^verbatim>\<open>batchrender\<close> has neither flag set. The claim
  exempts the turntable variant as well; \<^verbatim>\<open>process_turntable\<close> calls the gate, and
  the counterexample below shows a turntable instance with both flags forced in the
  unlocked scene and left unset in the locked one.
\<close>

theorem publish_lock_gate:
  assumes "process s ctx = Inr ctx'" and "\<not> is_locked s"
  shows "\<forall>i \<in> set (synthesized ctx').
           (inst_data i ''renderType'' = Some (PyStr ''playblast'') \<or>
            inst_data i ''renderType'' = Some (PyStr ''turntable'') \<longrightarrow>
              inst_data i ''optional'' = Some (PyBool False) \<and>
              inst_data i ''publish'' = Some (PyBool False))
         \<and> (inst_data i ''renderType'' = Some (PyStr ''batchrender'') \<longrightarrow>
              inst_data i ''optional'' = None \<and> inst_data i ''publish'' = None)"
proof
  fix i assume i: "i \<in> set (synthesized ctx')"
  from assms(1) obtain node dm where
    all: "list_all2 (\<lambda>l i. process_layer s (ctx_data ctx') node dm l = Inr i)
            (layers_to_publish s) (synthesized ctx')"
    by (rule process_synthesized)
  then have "list_all2 (\<lambda>i l. process_layer s (ctx_data ctx') node dm l = Inr i)
            (synthesized ctx') (layers_to_publish s)"
    by (simp add: list_all2_conv_all_nth)
  from list_all2_lookup [OF this i] obtain l where
    "process_layer s (ctx_data ctx') node dm l = Inr i" by blast
  from process_layer_gate [OF this] assms(2)
  show "(inst_data i ''renderType'' = Some (PyStr ''playblast'') \<or>
            inst_data i ''renderType'' = Some (PyStr ''turntable'') \<longrightarrow>
              inst_data i ''optional'' = Some (PyBool False) \<and>
              inst_data i ''publish'' = Some (PyBool False))
         \<and> (inst_data i ''renderType'' = Some (PyStr ''batchrender'') \<longrightarrow>
              inst_data i ''optional'' = None \<and> inst_data i ''publish'' = None)"
    by blast
qed

theorem publish_lock_gate_counterexample:
  "\<not> isl (process demo_scene demo_context) \<and> \<not> is_locked demo_scene
   \<and> map gate_flags (synthesized (projr (process demo_scene demo_context))) =
       [(Some (PyStr ''turntable''), Some (PyBool False), Some (PyBool False)),
        (Some (PyStr ''playblast''), Some (PyBool False), Some (PyBool False)),
        (Some (PyStr ''batchrender''), None, None)]
   \<and> map gate_flags (synthesized (projr (process (demo_scene\<lparr>is_locked := True\<rparr>) demo_context))) =
       [(Some (PyStr ''turntable''), None, None),
        (Some (PyStr ''playblast''), None, None),
        (Some (PyStr ''batchrender''), None, None)]"
  by code_simp

lemma demo_render_types:
  "map (\<lambda>i. inst_data i ''renderType'') (synthesized (projr (process demo_scene demo_context))) =
     [Some (PyStr ''turntable''), Some (PyStr ''playblast''), Some (PyStr ''batchrender'')]"
  by code_simp

theorem publish_lock_gate_witness:
  "gate_flags (synthesized (projr (process demo_scene demo_context)) ! 1) =
     (Some (PyStr ''playblast''), Some (PyBool False), Some (PyBool False))
   \<and> gate_flags (synthesized (projr (process demo_scene demo_context)) ! 0) =
     (Some (PyStr ''turntable''), Some (PyBool False), Some (PyBool False))
   \<and> gate_flags (synthesized (projr (process demo_scene demo_context)) ! 2) =
     (Some (PyStr ''batchrender''), None, None)"
proof -
  let ?new = "synthesized (projr (process demo_scene demo_context))"
  have unlocked: "\<not> is_locked demo_scene" by (simp add: demo_scene_def)
  have len: "length ?new = 3"
    using arg_cong [OF demo_render_types, of length] by simp
  have rt: "inst_data (?new ! 0) ''renderType'' = Some (PyStr ''turntable'')"
    "inst_data (?new ! 1) ''renderType'' = Some (PyStr ''playblast'')"
    "inst_data (?new ! 2) ''renderType'' = Some (PyStr ''batchrender'')"
    using arg_cong [OF demo_render_types, of "\<lambda>xs. xs ! 0"]
      arg_cong [OF demo_render_types, of "\<lambda>xs. xs ! 1"]
      arg_cong [OF demo_render_types, of "\<lambda>xs. xs ! 2"] len
    by simp_all
  have mem: "?new ! 0 \<in> set ?new" "?new ! 1 \<in> set ?new" "?new ! 2 \<in> set ?new"
    using len by simp_all
  note gate = publish_lock_gate [OF demo_process_Inr unlocked]
  show ?thesis
    using gate [THEN bspec, OF mem(1)] gate [THEN bspec, OF mem(2)] gate [THEN bspec, OF mem(3)] rt
    by (simp add: gate_flags_def)
qed

section \<open>The synthesizer: members and output paths\<close>

lemma parent_edges_descendants:
  "(p, m) \<in> set (parent_edges d) \<Longrightarrow> m \<in> set (descendants d)"
proof (induction d arbitrary: p m)
  case (DagNode n t i cs)
  then obtain c where c: "c \<in> set cs" and "(p, m) = (n, c) \<or> (p, m) \<in> set (parent_edges c)"
    by auto
  then have "m = c \<or> m \<in> set (descendants c)" using DagNode.IH by auto
  then show ?case using c by auto
qed

lemma descendants_trans:
  "c \<in> set (descendants d) \<Longrightarrow> m \<in> set (descendants c) \<Longrightarrow> m \<in> set (descendants d)"
proof (induction d)
  case (DagNode n t i cs)
  then obtain c' where c': "c' \<in> set cs" and "c = c' \<or> c \<in> set (descendants c')"
    by auto
  then have "m \<in> set (descendants c')" using DagNode by auto
  then show ?case using c' by auto
qed

lemma parent_edges_below:
  "c \<in> set (descendants d) \<Longrightarrow> e \<in> set (parent_edges c) \<Longrightarrow> e \<in> set (parent_edges d)"
proof (induction d)
  case (DagNode n t i cs)
  then obtain c' where c': "c' \<in> set cs" and "c = c' \<or> c \<in> set (descendants c')"
    by auto
  then have "e \<in> set (parent_edges c')" using DagNode by auto
  then show ?case using c' by auto
qed

lemma dag_nodes_closed:
  "d \<in> set (dag_nodes s) \<Longrightarrow> m \<in> set (descendants d) \<Longrightarrow> m \<in> set (dag_nodes s)"
  by (auto simp: dag_nodes_def intro: descendants_trans)

lemma dag_edges_closed:
  "d \<in> set (dag_nodes s) \<Longrightarrow> e \<in> set (parent_edges d) \<Longrightarrow> e \<in> set (dag_edges s)"
  by (auto simp: dag_nodes_def dag_edges_def intro: parent_edges_below)

lemma set_listRelatives_allDescendents:
  "set (case listRelatives_allDescendents s nodes of None \<Rightarrow> [] | Some ds \<Rightarrow> ds)
     = {node_name m | m d. d \<in> set (dag_nodes s) \<and> node_name d \<in> set nodes \<and>
                            m \<in> set (descendants d)}"
proof -
  define ds where "ds = concat (map (\<lambda>n. concat (map (\<lambda>d. map node_name (descendants d))
                                   (filter (\<lambda>d. node_name d = n) (dag_nodes s)))) nodes)"
  have "(case listRelatives_allDescendents s nodes of None \<Rightarrow> [] | Some ds \<Rightarrow> ds) = ds"
    by (simp add: listRelatives_allDescendents_def ds_def)
  moreover have "set ds = {node_name m | m d. d \<in> set (dag_nodes s) \<and> node_name d \<in> set nodes \<and>
                            m \<in> set (descendants d)}"
    unfolding ds_def by auto
  ultimately show ?thesis by simp
qed

lemma set_listRelatives_parent:
  "set (case listRelatives_parent s nodes of None \<Rightarrow> [] | Some ps \<Rightarrow> ps)
     = {p. \<exists>c. (p, c) \<in> set (dag_edges s) \<and> node_name c \<in> set nodes}"
proof -
  define ps where
    "ps = concat (map (\<lambda>n. map fst (filter (\<lambda>(p, c). node_name c = n) (dag_edges s))) nodes)"
  have "(case listRelatives_parent s nodes of None \<Rightarrow> [] | Some ps \<Rightarrow> ps) = ps"
    by (simp add: listRelatives_parent_def ps_def)
  moreover have "set ps = {p. \<exists>c. (p, c) \<in> set (dag_edges s) \<and> node_name c \<in> set nodes}"
    unfolding ps_def by force
  ultimately show ?thesis by simp
qed

lemma mesh_parents_collected:
  assumes "anc \<in> set (dag_nodes s)" and "node_name anc \<in> set ms"
    and "(p, m) \<in> set (parent_edges anc)"
    and "node_type m = ''mesh''" and "\<not> intermediate m"
  shows "p \<in> set (case listRelatives_parent s
                      (ls_mesh_noIntermediate s
                         (ms @ (case listRelatives_allDescendents s ms of
                                  None \<Rightarrow> [] | Some ds \<Rightarrow> ds))) of
                    None \<Rightarrow> [] | Some ts \<Rightarrow> ts)"
proof -
  have m: "m \<in> set (descendants anc)" using assms(3) by (rule parent_edges_descendants)
  then have "node_name m \<in> set (case listRelatives_allDescendents s ms of
                                  None \<Rightarrow> [] | Some ds \<Rightarrow> ds)"
    unfolding set_listRelatives_allDescendents using assms(1,2) by blast
  moreover have "m \<in> set (dag_nodes s)" using dag_nodes_closed [OF assms(1) m] .
  ultimately have "node_name m \<in> set (ls_mesh_noIntermediate s
                         (ms @ (case listRelatives_allDescendents s ms of
                                  None \<Rightarrow> [] | Some ds \<Rightarrow> ds)))"
    using assms(4,5) by (auto simp: ls_mesh_noIntermediate_def)
  moreover have "(p, m) \<in> set (dag_edges s)" using dag_edges_closed [OF assms(1,3)] .
  ultimately show ?thesis unfolding set_listRelatives_parent by blast
qed

text \<open>
  Claim C8 (dependency-member closure). After a pass that ends without an exception,
  take a synthesized instance, its layer and the layer's raw membership list, a node of
  the scene named in that list, and a mesh below that node that is not an intermediate
  object: the parent of the mesh is among the members of the instance.
\<close>

theorem dependency_member_closure:
  assumes "process s ctx = Inr ctx'"
  shows "\<forall>i \<in> set (synthesized ctx'). \<forall>l ms.
           instance_layer i = Some (PyStr l) \<and> editRenderLayerMembers s l = Some ms \<longrightarrow>
           (\<forall>anc \<in> set (dag_nodes s). node_name anc \<in> set ms \<longrightarrow>
              (\<forall>(p, m) \<in> set (parent_edges anc).
                 node_type m = ''mesh'' \<and> \<not> intermediate m \<longrightarrow> p \<in> set (inst_members i)))"
proof (intro ballI allI impI, clarify)
  fix i l ms anc p m
  assume i: "i \<in> set (synthesized ctx')" and l: "instance_layer i = Some (PyStr l)"
    and ms: "editRenderLayerMembers s l = Some ms"
    and anc: "anc \<in> set (dag_nodes s)" "node_name anc \<in> set ms"
    and pm: "(p, m) \<in> set (parent_edges anc)" "node_type m = ''mesh''" "\<not> intermediate m"
  from assms obtain node dm where
    all: "list_all2 (\<lambda>l i. process_layer s (ctx_data ctx') node dm l = Inr i)
            (layers_to_publish s) (synthesized ctx')"
    by (rule process_synthesized)
  then have "list_all2 (\<lambda>i l. process_layer s (ctx_data ctx') node dm l = Inr i)
            (synthesized ctx') (layers_to_publish s)"
    by (simp add: list_all2_conv_all_nth)
  from list_all2_lookup [OF this i] obtain l' where
    pl: "process_layer s (ctx_data ctx') node dm l' = Inr i" by blast
  have "l' = l" using process_layer_props(3) [OF pl] l by (simp add: instance_layer_def)
  from pl [unfolded this] obtain inst8 :: publish_instance where
    "inst_members i = inst_members inst8 @
              (case listRelatives_parent s
                      (ls_mesh_noIntermediate s
                         ((case editRenderLayerMembers s l of None \<Rightarrow> [] | Some ms \<Rightarrow> ms) @
                          (case listRelatives_allDescendents s
                                  (case editRenderLayerMembers s l of None \<Rightarrow> [] | Some ms \<Rightarrow> ms) of
                             None \<Rightarrow> [] | Some ds \<Rightarrow> ds))) of
                 None \<Rightarrow> [] | Some ts \<Rightarrow> ts)"
    by (rule process_layer_Inr) simp
  then show "p \<in> set (inst_members i)"
    using mesh_parents_collected [OF anc pm] ms by simp
qed


lemma demo_fx_instance:
  "length (synthesized (projr (process demo_scene demo_context))) = 3
   \<and> instance_layer (hd (synthesized (projr (process demo_scene demo_context)))) = Some (PyStr ''fx'')"
  by code_simp

lemma demo_fx_mesh:
  "hd demo_dag \<in> set (dag_nodes demo_scene) \<and> node_name (hd demo_dag) = ''grp''
   \<and> (''grp|body'', DagNode ''grp|body|bodyShape'' ''mesh'' False []) \<in> set (parent_edges (hd demo_dag))"
  by code_simp

theorem dependency_member_closure_witness:
  "editRenderLayerMembers demo_scene ''fx'' = Some [''grp'']
   \<and> ''grp|body'' \<in> set (inst_members (hd (synthesized (projr (process demo_scene demo_context)))))"
proof -
  let ?i = "hd (synthesized (projr (process demo_scene demo_context)))"
  have i: "?i \<in> set (synthesized (projr (process demo_scene demo_context)))"
    using demo_fx_instance by (cases "synthesized (projr (process demo_scene demo_context))") simp_all
  have ms: "editRenderLayerMembers demo_scene ''fx'' = Some [''grp'']"
    by (simp add: demo_scene_def)
  have "''grp|body'' \<in> set (inst_members ?i)"
    using dependency_member_closure [OF demo_process_Inr, rule_format, of ?i "''fx''" "[''grp'']"
        "hd demo_dag" "(''grp|body'', DagNode ''grp|body|bodyShape'' ''mesh'' False [])"]
      i ms demo_fx_instance demo_fx_mesh
    by simp
  then show ?thesis using ms by simp
qed

lemma first_occurrences_distinct: "distinct xs \<Longrightarrow> first_occurrences xs = xs"
proof (induction xs)
  case Nil
  then show ?case by simp
next
  case (Cons x xs)
  then have "filter (\<lambda>y. y \<noteq> x) xs = xs" by (auto simp: filter_id_conv)
  then show ?case using Cons by simp
qed

lemma od_set_same:
  "od_set k (f k) (map (\<lambda>a. (a, f a)) ks) =
     (if k \<in> set ks then map (\<lambda>a. (a, f a)) ks else map (\<lambda>a. (a, f a)) (ks @ [k]))"
  by (auto simp: od_set_def image_iff)

lemma compose_paths_first_occurrences:
  "compose_paths s layer output_dir names
     (map (\<lambda>aov. (aov, PyStr (replace_backslash
                        (output_dir @ ''/'' @ compose_render_filename s layer aov)))) ks)
   = map (\<lambda>aov. (aov, PyStr (replace_backslash
                        (output_dir @ ''/'' @ compose_render_filename s layer aov))))
       (ks @ first_occurrences (filter (\<lambda>a. a \<notin> set ks) names))"
proof (induction names arbitrary: ks)
  case Nil
  then show ?case by simp
next
  case (Cons a names)
  let ?f = "\<lambda>aov. PyStr (replace_backslash (output_dir @ ''/'' @ compose_render_filename s layer aov))"
  show ?case
  proof (cases "a \<in> set ks")
    case True
    then show ?thesis
      using Cons.IH [of ks] od_set_same [of a ?f ks] by (simp add: Let_def)
  next
    case False
    have "filter (\<lambda>y. y \<noteq> a) (filter (\<lambda>a. a \<notin> set ks) names)
            = filter (\<lambda>b. b \<notin> set (ks @ [a])) names"
      by (auto intro: filter_cong)
    then show ?thesis
      using Cons.IH [of "ks @ [a]"] od_set_same [of a ?f ks] False by (simp add: Let_def)
  qed
qed

lemma replace_backslash_free: "CHR 0x5C \<notin> set (replace_backslash path)"
  by (auto simp: replace_backslash_def)

text \<open>
  Claim C7 (output composition). For an instance that carries its renderer and layer,
  under a context with an output directory, \<^verbatim>\<open>collect_output_paths\<close> succeeds and
  stores a mapping whose keys are the channel names the renderer reports followed by the
  empty name of the primary channel, each once, at its first occurrence; when the
  reported names are distinct and none is empty that is the reported list, in order, with
  the primary channel last. Every path is the output directory, a slash and the composed
  file name, with every backslash replaced by a slash. \<^verbatim>\<open>set_extraction_type\<close> then
  tags the instance \<^verbatim>\<open>imageSequenceSet\<close> when the mapping has more than one entry and
  \<^verbatim>\<open>imageSequence\<close> otherwise.
\<close>

theorem aov_output_composition:
  assumes "inst_data inst ''renderer'' = Some renderer"
    and "inst_data inst ''renderlayer'' = Some (PyStr layer)"
    and "cd ''outputDir'' = Some (PyStr output_dir)"
  shows "\<exists>inst1 inst2 paths.
           collect_output_paths s cd inst = Inr inst1
         \<and> inst_data inst1 ''outputPaths'' = Some (PyDict paths)
         \<and> map fst paths = first_occurrences (renderer_aov_names s renderer layer @ [[]])
         \<and> (distinct (renderer_aov_names s renderer layer @ [[]]) \<longrightarrow>
              map fst paths = renderer_aov_names s renderer layer @ [[]])
         \<and> (\<forall>(aov, path) \<in> set paths.
              path = PyStr (replace_backslash
                              (output_dir @ ''/'' @ compose_render_filename s layer aov))
              \<and> CHR 0x5C \<notin> set (replace_backslash
                              (output_dir @ ''/'' @ compose_render_filename s layer aov)))
         \<and> set_extraction_type inst1 = Inr inst2
         \<and> inst_data inst2 ''outputPaths'' = Some (PyDict paths)
         \<and> inst_data inst2 ''extractType'' =
              Some (PyStr (if length paths > 1 then ''imageSequenceSet'' else ''imageSequence''))"
proof -
  let ?names = "renderer_aov_names s renderer layer @ [[]]"
  let ?g = "\<lambda>aov. (aov, PyStr (replace_backslash
                        (output_dir @ ''/'' @ compose_render_filename s layer aov)))"
  let ?paths = "map ?g (first_occurrences ?names)"
  let ?inst1 = "set_data ''outputPaths'' (PyDict ?paths) inst"
  let ?inst2 = "set_data ''extractType''
                  (PyStr (if length ?paths > 1 then ''imageSequenceSet'' else ''imageSequence''))
                  ?inst1"
  have paths: "compose_paths s layer output_dir ?names [] = ?paths"
    using compose_paths_first_occurrences [of s layer output_dir ?names "[]"] by simp
  have 1: "collect_output_paths s cd inst = Inr ?inst1"
    unfolding collect_output_paths_Inr using assms paths by simp
  have 2: "inst_data ?inst1 ''outputPaths'' = Some (PyDict ?paths)"
    by (simp add: set_data_simps)
  have 3: "map fst ?paths = first_occurrences ?names"
    by (simp add: comp_def)
  have 4: "distinct ?names \<longrightarrow> map fst ?paths = ?names"
    using 3 first_occurrences_distinct by metis
  have 5: "\<forall>(aov, path) \<in> set ?paths.
              path = PyStr (replace_backslash
                              (output_dir @ ''/'' @ compose_render_filename s layer aov))
              \<and> CHR 0x5C \<notin> set (replace_backslash
                              (output_dir @ ''/'' @ compose_render_filename s layer aov))"
    using replace_backslash_free by auto
  have 6: "set_extraction_type ?inst1 = Inr ?inst2"
    by (simp add: set_extraction_type_def lookup_def set_data_simps)
  have 7: "inst_data ?inst2 ''outputPaths'' = Some (PyDict ?paths)"
    "inst_data ?inst2 ''extractType'' =
       Some (PyStr (if length ?paths > 1 then ''imageSequenceSet'' else ''imageSequence''))"
    by (simp_all add: set_data_simps)
  show ?thesis
    using 1 2 3 4 5 6 7 by blast
qed


lemma paths_by_keys:
  "\<forall>(aov, path) \<in> set paths. path = f aov \<and> P aov \<Longrightarrow>
     paths = map (\<lambda>aov. (aov, f aov)) (map fst paths)"
  by (induction paths) auto

theorem aov_output_composition_witness:
  "(\<exists>inst1 inst2.
      collect_output_paths demo_scene [''outputDir'' \<mapsto> PyStr ''/proj/renders'']
        (demo_instance ''arnold'') = Inr inst1
    \<and> inst_data inst1 ''outputPaths'' =
        Some (PyDict [(''diffuse'', PyStr ''/proj/renders/L1/diffuse.exr''),
                      (''specular'', PyStr ''/proj/renders/L1/specular.exr''),
                      ([], PyStr ''/proj/renders/L1/beauty.exr'')])
    \<and> set_extraction_type inst1 = Inr inst2
    \<and> inst_data inst2 ''extractType'' = Some (PyStr ''imageSequenceSet''))
   \<and> (\<exists>inst1 inst2.
      collect_output_paths demo_scene [''outputDir'' \<mapsto> PyStr ''/proj/renders'']
        (demo_instance ''mayaSoftware'') = Inr inst1
    \<and> inst_data inst1 ''outputPaths'' =
        Some (PyDict [([], PyStr ''/proj/renders/L1/beauty.exr'')])
    \<and> set_extraction_type inst1 = Inr inst2
    \<and> inst_data inst2 ''extractType'' = Some (PyStr ''imageSequence''))"
proof -
  let ?cd = "[''outputDir'' \<mapsto> PyStr ''/proj/renders'']"
  let ?f = "\<lambda>aov. PyStr (replace_backslash
                           (''/proj/renders'' @ ''/'' @ compose_render_filename demo_scene ''L1'' aov))"
  have eval: "?f ''diffuse'' = PyStr ''/proj/renders/L1/diffuse.exr''"
    "?f ''specular'' = PyStr ''/proj/renders/L1/specular.exr''"
    "?f [] = PyStr ''/proj/renders/L1/beauty.exr''"
    by (simp_all add: replace_backslash_def demo_scene_def)
  have names: "renderer_aov_names demo_scene (PyStr ''arnold'') ''L1'' = [''diffuse'', ''specular'']"
    "renderer_aov_names demo_scene (PyStr ''mayaSoftware'') ''L1'' = []"
    by (simp_all add: renderer_aov_names_def demo_scene_def)
  have hyp: "inst_data (demo_instance r) ''renderer'' = Some (PyStr r)"
    "inst_data (demo_instance r) ''renderlayer'' = Some (PyStr ''L1'')"
    "?cd ''outputDir'' = Some (PyStr ''/proj/renders'')" for r
    by (simp_all add: demo_instance_def)
  from aov_output_composition [where inst = "demo_instance ''arnold''" and cd = ?cd
      and s = demo_scene, OF hyp]
  obtain inst1 inst2 paths where a:
    "collect_output_paths demo_scene ?cd (demo_instance ''arnold'') = Inr inst1"
    "inst_data inst1 ''outputPaths'' = Some (PyDict paths)"
    "map fst paths = [''diffuse'', ''specular'', []]"
    "\<forall>(aov, path) \<in> set paths. path = ?f aov \<and>
        CHR 0x5C \<notin> set (replace_backslash
             (''/proj/renders'' @ ''/'' @ compose_render_filename demo_scene ''L1'' aov))"
    "set_extraction_type inst1 = Inr inst2"
    "inst_data inst2 ''extractType'' =
       Some (PyStr (if length paths > 1 then ''imageSequenceSet'' else ''imageSequence''))"
    unfolding names by auto
  have pa: "paths = [(''diffuse'', PyStr ''/proj/renders/L1/diffuse.exr''),
                      (''specular'', PyStr ''/proj/renders/L1/specular.exr''),
                      ([], PyStr ''/proj/renders/L1/beauty.exr'')]"
    using paths_by_keys [OF a(4)] a(3) eval by simp
  from aov_output_composition [where inst = "demo_instance ''mayaSoftware''" and cd = ?cd
      and s = demo_scene, OF hyp]
  obtain inst1' inst2' paths' where b:
    "collect_output_paths demo_scene ?cd (demo_instance ''mayaSoftware'') = Inr inst1'"
    "inst_data inst1' ''outputPaths'' = Some (PyDict paths')"
    "map fst paths' = [[]]"
    "\<forall>(aov, path) \<in> set paths'. path = ?f aov \<and>
        CHR 0x5C \<notin> set (replace_backslash
             (''/proj/renders'' @ ''/'' @ compose_render_filename demo_scene ''L1'' aov))"
    "set_extraction_type inst1' = Inr inst2'"
    "inst_data inst2' ''extractType'' =
       Some (PyStr (if length paths' > 1 then ''imageSequenceSet'' else ''imageSequence''))"
    unfolding names by auto
  have pb: "paths' = [([], PyStr ''/proj/renders/L1/beauty.exr'')]"
    using paths_by_keys [OF b(4)] b(3) eval by simp
  show ?thesis
    using a(1,2,5,6) b(1,2,5,6) unfolding pa pb by auto
qed

end
